theory Spec2Isabelle
  imports Complex_Main "HOL-Library.List_Lexorder" "HOL-Library.Char_ord"
begin

section \<open>Smart Kitchen backend: data model\<close>

text \<open>
  The embedding follows \<^verbatim>\<open>src/backend/fastapi_app.py\<close>. The DuckDB tables are lists of
  rows in insertion order. All \<^verbatim>\<open>TEXT\<close> columns are strings and are compared the way
  the SQL engine compares them: lexicographically, character code by character code
  (the order on \<^typ>\<open>string\<close> given by the list and character orders imported above).
  The column \<^verbatim>\<open>created_at\<close> of the reservations table and the theme columns of the users
  table are never read by the functions modelled here and are left out.
\<close>

record appliance =
  app_id :: string
  app_kitchen_id :: int
  app_type :: string
  app_name :: string

record reservation =
  res_id :: string
  isic_number :: string
  res_date :: string
  start_time :: string
  end_time :: string
  kitchen_id :: int
  appliance_id :: string
  appliance_type :: string
  status :: string

record user =
  user_isic_number :: string
  user_name :: string
  face_embedding :: "real list option"

text \<open>
  The state is the global dictionary \<^verbatim>\<open>tokens\<close> together with the three tables the
  modelled handlers read or write.
\<close>

record state =
  tokens :: "string \<rightharpoonup> string"
  users :: "user list"
  appliances :: "appliance list"
  reservations :: "reservation list"

text \<open>
  An \<^verbatim>\<open>HTTPException\<close> carries its status code and its detail string. The insert into a
  table with a primary key raises DuckDB's \<^verbatim>\<open>ConstraintException\<close> on a duplicate key;
  no handler catches it.
\<close>

datatype error = HTTPException nat string | ConstraintException

section \<open>Session tokens\<close>

text \<open>
  \<^verbatim>\<open>generate_token\<close> draws the token from \<^verbatim>\<open>secrets.token_urlsafe(32)\<close>; the drawn
  string is a parameter here.
\<close>

definition generate_token :: "state \<Rightarrow> string \<Rightarrow> string \<Rightarrow> string \<times> state" where
  "generate_token s token isic = (token, s\<lparr>tokens := (tokens s)(token \<mapsto> isic)\<rparr>)"

definition verify_token :: "state \<Rightarrow> string \<Rightarrow> string option" where
  "verify_token s token = tokens s token"

text \<open>Python's \<^verbatim>\<open>not x\<close> for an optional string: \<^verbatim>\<open>None\<close> and the empty string are falsy.\<close>

definition py_not :: "string option \<Rightarrow> bool" where
  "py_not x = (case x of None \<Rightarrow> True | Some v \<Rightarrow> v = [])"

section \<open>Reservations\<close>

text \<open>
  The disjunction of the conflict query of \<^verbatim>\<open>create_reservation\<close>, for one stored row
  and the requested \<^verbatim>\<open>startTime\<close>, \<^verbatim>\<open>endTime\<close>.
\<close>

definition sql_conflict :: "reservation \<Rightarrow> string \<Rightarrow> string \<Rightarrow> bool" where
  "sql_conflict r startTime endTime =
     ((start_time r \<le> startTime \<and> end_time r > startTime) \<or>
      (start_time r < endTime \<and> end_time r \<ge> endTime) \<or>
      (start_time r \<ge> startTime \<and> end_time r \<le> endTime))"

text \<open>The \<^verbatim>\<open>WHERE\<close> clause of the conflict query and its \<^verbatim>\<open>COUNT(*)\<close>.\<close>

definition conflict_row :: "string \<Rightarrow> int \<Rightarrow> string \<Rightarrow> string \<Rightarrow> string \<Rightarrow> reservation \<Rightarrow> bool" where
  "conflict_row d kitchenId applianceId startTime endTime r =
     (res_date r = d \<and> kitchen_id r = kitchenId \<and> appliance_id r = applianceId
      \<and> status r = ''confirmed'' \<and> sql_conflict r startTime endTime)"

definition conflicts :: "state \<Rightarrow> string \<Rightarrow> int \<Rightarrow> string \<Rightarrow> string \<Rightarrow> string \<Rightarrow> nat" where
  "conflicts s d kitchenId applianceId startTime endTime =
     length (filter (conflict_row d kitchenId applianceId startTime endTime) (reservations s))"

text \<open>The f-string \<^verbatim>\<open>f"{isic}_{date}_{startTime}_{endTime}"\<close>.\<close>

definition reservation_id :: "string \<Rightarrow> string \<Rightarrow> string \<Rightarrow> string \<Rightarrow> string" where
  "reservation_id isic d startTime endTime =
     isic @ ''_'' @ d @ ''_'' @ startTime @ ''_'' @ endTime"

text \<open>\<^verbatim>\<open>SELECT type FROM appliances WHERE id = ?\<close> with \<^verbatim>\<open>fetchone()\<close>.\<close>

definition select_appliance_type :: "state \<Rightarrow> string \<Rightarrow> string option" where
  "select_appliance_type s applianceId =
     map_option app_type (find (\<lambda>a. app_id a = applianceId) (appliances s))"

text \<open>
  \<^verbatim>\<open>INSERT INTO reservations\<close>: the column \<^verbatim>\<open>id\<close> is the primary key, so a row whose id
  is already stored (whatever its status) makes the statement fail and nothing is written.
\<close>

definition insert_reservation :: "state \<Rightarrow> reservation \<Rightarrow> (error + unit) \<times> state" where
  "insert_reservation s row =
     (if \<exists>r \<in> set (reservations s). res_id r = res_id row
      then (Inl ConstraintException, s)
      else (Inr (), s\<lparr>reservations := reservations s @ [row]\<rparr>))"

text \<open>
  The handler of \<^verbatim>\<open>POST /reserve\<close>. Every \<^verbatim>\<open>raise\<close> is an \<open>Inl\<close> paired with the state
  as it is at that point; the success value is the \<^verbatim>\<open>id\<close> of the response.
\<close>

definition create_reservation ::
  "state \<Rightarrow> string \<Rightarrow> string \<Rightarrow> string \<Rightarrow> int \<Rightarrow> string \<Rightarrow> string \<Rightarrow> (error + string) \<times> state" where
  "create_reservation s d startTime endTime kitchenId applianceId token =
     (let isic = verify_token s token in
      if py_not isic then (Inl (HTTPException 401 ''Invalid token''), s)
      else if conflicts s d kitchenId applianceId startTime endTime > 0
      then (Inl (HTTPException 400 ''Time slot already reserved''), s)
      else
        (let rid = reservation_id (the isic) d startTime endTime in
         case select_appliance_type s applianceId of
           None \<Rightarrow> (Inl (HTTPException 400 ''Invalid appliance''), s)
         | Some ty \<Rightarrow>
            (case insert_reservation s
                    \<lparr>res_id = rid, isic_number = the isic, res_date = d,
                     start_time = startTime, end_time = endTime, kitchen_id = kitchenId,
                     appliance_id = applianceId, appliance_type = ty,
                     status = ''confirmed''\<rparr> of
               (Inl e, s') \<Rightarrow> (Inl e, s')
             | (Inr u, s') \<Rightarrow> (Inr rid, s'))))"

text \<open>
  The handler of \<^verbatim>\<open>DELETE /reservation/{reservation_id}\<close>. The owner lookup is a
  \<^verbatim>\<open>fetchone()\<close>; the update rewrites the status of every row with the given id.
\<close>

definition select_owner :: "state \<Rightarrow> string \<Rightarrow> string option" where
  "select_owner s rid =
     map_option isic_number (find (\<lambda>r. res_id r = rid) (reservations s))"

definition update_cancelled :: "state \<Rightarrow> string \<Rightarrow> state" where
  "update_cancelled s rid =
     s\<lparr>reservations :=
         map (\<lambda>r. if res_id r = rid then r\<lparr>status := ''cancelled''\<rparr> else r) (reservations s)\<rparr>"

definition cancel_reservation :: "state \<Rightarrow> string \<Rightarrow> string \<Rightarrow> (error + string) \<times> state" where
  "cancel_reservation s rid token =
     (let isic = verify_token s token in
      if py_not isic then (Inl (HTTPException 401 ''Invalid token''), s)
      else
        (case select_owner s rid of
           None \<Rightarrow> (Inl (HTTPException 403 ''Not your reservation''), s)
         | Some owner \<Rightarrow>
             if owner \<noteq> the isic then (Inl (HTTPException 403 ''Not your reservation''), s)
             else (Inr ''Reservation cancelled successfully'', update_cancelled s rid)))"

section \<open>Reachable states\<close>

text \<open>
  The states the service can be in: it starts with an empty reservations table (any
  appliance catalogue, any users, any issued tokens), and requests arrive one after the
  other, each running its handler to the end.
\<close>

inductive reachable :: "state \<Rightarrow> bool" where
  start: "reservations s = [] \<Longrightarrow> reachable s"
| book: "reachable s \<Longrightarrow>
         reachable (snd (create_reservation s d startTime endTime kitchenId applianceId token))"
| cancel: "reachable s \<Longrightarrow> reachable (snd (cancel_reservation s rid token))"
| issue: "reachable s \<Longrightarrow> reachable (snd (generate_token s token isic))"

section \<open>Availability\<close>

record slot =
  slot_id :: string
  slot_startTime :: string
  slot_endTime :: string
  slot_userId :: nat

record appliance_entry =
  entry_applianceId :: string
  entry_applianceType :: string
  entry_applianceName :: string
  entry_reservations :: "slot list"

record availability =
  resp_date :: string
  resp_kitchenId :: int
  operatingHours :: "string \<times> string"
  minDuration :: nat
  maxDuration :: nat
  resp_appliances :: "appliance_entry list"
  totalReservations :: nat

text \<open>\<^verbatim>\<open>SELECT id, type, name FROM appliances WHERE kitchen_id = ?\<close>.\<close>

definition select_appliances :: "state \<Rightarrow> int \<Rightarrow> (string \<times> string \<times> string) list" where
  "select_appliances s kitchen =
     map (\<lambda>a. (app_id a, app_type a, app_name a))
       (filter (\<lambda>a. app_kitchen_id a = kitchen) (appliances s))"

text \<open>
  \<^verbatim>\<open>SELECT appliance_id, start_time, end_time FROM reservations WHERE date = ? AND
  kitchen_id = ? AND status = 'confirmed'\<close>, in table order (the query has no
  \<^verbatim>\<open>ORDER BY\<close>).
\<close>

definition select_reservations :: "state \<Rightarrow> string \<Rightarrow> int \<Rightarrow> (string \<times> string \<times> string) list" where
  "select_reservations s d kitchen =
     map (\<lambda>r. (appliance_id r, start_time r, end_time r))
       (filter (\<lambda>r. res_date r = d \<and> kitchen_id r = kitchen \<and> status r = ''confirmed'')
          (reservations s))"

text \<open>
  One round of the grouping loop: the dictionary \<^verbatim>\<open>appliance_reservations\<close> gets the
  entry for \<^verbatim>\<open>res[0]\<close> extended. The field \<^verbatim>\<open>"id"\<close> of the appended dictionary is
  \<^verbatim>\<open>res[0]\<close>, the first selected column.
\<close>

definition group_reservation ::
  "(string \<rightharpoonup> slot list) \<Rightarrow> string \<times> string \<times> string \<Rightarrow> (string \<rightharpoonup> slot list)" where
  "group_reservation m res =
     (let key = fst res;
          m' = (if m key = None then m(key \<mapsto> []) else m)
      in m'(key \<mapsto> the (m' key) @
              [\<lparr>slot_id = fst res, slot_startTime = fst (snd res),
                slot_endTime = snd (snd res), slot_userId = 1\<rparr>]))"

definition dict_get :: "(string \<rightharpoonup> slot list) \<Rightarrow> string \<Rightarrow> slot list \<Rightarrow> slot list" where
  "dict_get m k dflt = (case m k of None \<Rightarrow> dflt | Some v \<Rightarrow> v)"

definition get_availability :: "state \<Rightarrow> string \<Rightarrow> int \<Rightarrow> availability" where
  "get_availability s d kitchen =
     (let apps = select_appliances s kitchen;
          rs = select_reservations s d kitchen;
          appliance_reservations = foldl group_reservation Map.empty rs;
          appliances_list =
            map (\<lambda>app. \<lparr>entry_applianceId = fst app, entry_applianceType = fst (snd app),
                        entry_applianceName = snd (snd app),
                        entry_reservations = dict_get appliance_reservations (fst app) []\<rparr>)
              apps
      in \<lparr>resp_date = d, resp_kitchenId = kitchen,
          operatingHours = (''06:00'', ''23:00''), minDuration = 5, maxDuration = 120,
          resp_appliances = appliances_list, totalReservations = length rs\<rparr>)"

section \<open>Identity resolution\<close>

text \<open>
  \<^verbatim>\<open>numpy\<close> is an external library and computes in binary64 floating point. Its
  operations are parameters of the model: the dot product, the Euclidean norm, and the
  float multiplication and division. A float is read as the real number it denotes
  (no NaN, no infinity), so the comparisons of the code are the comparisons of
  \<^typ>\<open>real\<close>. Every embedding, stored or probed, is an output of the one face model
  and has its length, so \<^verbatim>\<open>np.dot\<close> never meets vectors of different shapes.
\<close>

record numpy =
  np_dot :: "real list \<Rightarrow> real list \<Rightarrow> real"
  np_linalg_norm :: "real list \<Rightarrow> real"
  float_mul :: "real \<Rightarrow> real \<Rightarrow> real"
  float_div :: "real \<Rightarrow> real \<Rightarrow> real"

definition cosine_similarity :: "numpy \<Rightarrow> real list \<Rightarrow> real list \<Rightarrow> real" where
  "cosine_similarity np embedding1 embedding2 =
     (let dot_product = np_dot np embedding1 embedding2;
          norm1 = np_linalg_norm np embedding1;
          norm2 = np_linalg_norm np embedding2
      in if norm1 = 0 \<or> norm2 = 0 then 0
         else float_div np dot_product (float_mul np norm1 norm2))"

text \<open>
  \<^verbatim>\<open>SELECT isic_number, face_embedding FROM users WHERE face_embedding IS NOT NULL\<close>,
  with the JSON column already decoded.
\<close>

definition select_enrolled :: "state \<Rightarrow> (string \<times> real list) list" where
  "select_enrolled s =
     concat (map (\<lambda>u. case face_embedding u of None \<Rightarrow> []
                      | Some e \<Rightarrow> [(user_isic_number u, e)]) (users s))"

text \<open>One round of the scan: the pair is \<^verbatim>\<open>(best_match, best_similarity)\<close>.\<close>

definition match_step ::
  "numpy \<Rightarrow> real list \<Rightarrow> string option \<times> real \<Rightarrow> string \<times> real list \<Rightarrow> string option \<times> real" where
  "match_step np embedding best row =
     (let similarity = cosine_similarity np embedding (snd row)
      in if similarity > snd best then (Some (fst row), similarity) else best)"

definition find_matching_user :: "numpy \<Rightarrow> state \<Rightarrow> real list \<Rightarrow> real \<Rightarrow> string option" where
  "find_matching_user np s embedding threshold =
     (let best = foldl (match_step np embedding) (None, 0) (select_enrolled s)
      in if snd best \<ge> threshold then fst best else None)"

text \<open>
  The exact operations on the reals, which numpy's agree with wherever no rounding
  occurs; used to run the scan on concrete vectors of equal length.
\<close>

definition exact_numpy :: numpy where
  "exact_numpy =
     \<lparr>np_dot = (\<lambda>xs ys. sum_list (map2 (*) xs ys)),
      np_linalg_norm = (\<lambda>xs. sqrt (sum_list (map (\<lambda>x. x * x) xs))),
      float_mul = (*), float_div = (/)\<rparr>"

section \<open>Door access\<close>

text \<open>
  \<^verbatim>\<open>datetime.now()\<close> is a parameter. \<^verbatim>\<open>strftime\<close> with \<^verbatim>\<open>%Y-%m-%d\<close> and \<^verbatim>\<open>%H:%M\<close> prints
  zero-padded decimal fields (the year has four digits for every year from 1000 on).
\<close>

record datetime =
  dt_year :: nat
  dt_month :: nat
  dt_day :: nat
  dt_hour :: nat
  dt_minute :: nat
  dt_second :: nat

definition digit :: "nat \<Rightarrow> char" where
  "digit n = ''0123456789'' ! (n mod 10)"

definition strftime_Ymd :: "datetime \<Rightarrow> string" where
  "strftime_Ymd now =
     [digit (dt_year now div 1000), digit (dt_year now div 100), digit (dt_year now div 10),
      digit (dt_year now)] @ ''-'' @
     [digit (dt_month now div 10), digit (dt_month now)] @ ''-'' @
     [digit (dt_day now div 10), digit (dt_day now)]"

definition strftime_HM :: "datetime \<Rightarrow> string" where
  "strftime_HM now =
     [digit (dt_hour now div 10), digit (dt_hour now)] @ '':'' @
     [digit (dt_minute now div 10), digit (dt_minute now)]"

text \<open>The float literal \<^verbatim>\<open>0.6\<close>: the binary64 number nearest to six tenths.\<close>

definition threshold_0_6 :: real where
  "threshold_0_6 = 5404319552844595 / 9007199254740992"

text \<open>The \<^verbatim>\<open>WHERE\<close> clause of the active-reservation query of \<^verbatim>\<open>esp_check\<close>.\<close>

definition active_row :: "string \<Rightarrow> string \<Rightarrow> string \<Rightarrow> reservation \<Rightarrow> bool" where
  "active_row isic today hm r =
     (isic_number r = isic \<and> res_date r = today \<and> start_time r \<le> hm \<and> end_time r \<ge> hm
      \<and> status r = ''confirmed'')"

text \<open>
  The handler of \<^verbatim>\<open>POST /esp/check\<close>, from the point where the external face model has
  produced the embedding of the uploaded image. The result is the field
  \<^verbatim>\<open>authorized\<close>.
\<close>

definition esp_check :: "numpy \<Rightarrow> state \<Rightarrow> real list \<Rightarrow> datetime \<Rightarrow> bool" where
  "esp_check np s embedding now =
     (let matched_isic = find_matching_user np s embedding threshold_0_6 in
      if py_not matched_isic then False
      else
        (let result = length (filter (active_row (the matched_isic) (strftime_Ymd now)
                                        (strftime_HM now)) (reservations s))
         in if result > 0 then True else False))"

section \<open>Concrete states used to run the handlers\<close>

text \<open>The row written by the \<^verbatim>\<open>INSERT\<close> of \<^verbatim>\<open>create_reservation\<close>.\<close>

definition new_row :: "string \<Rightarrow> string \<Rightarrow> string \<Rightarrow> string \<Rightarrow> int \<Rightarrow> string \<Rightarrow> string \<Rightarrow> reservation" where
  "new_row isic d startTime endTime kitchenId applianceId ty =
     \<lparr>res_id = reservation_id isic d startTime endTime, isic_number = isic, res_date = d,
      start_time = startTime, end_time = endTime, kitchen_id = kitchenId,
      appliance_id = applianceId, appliance_type = ty, status = ''confirmed''\<rparr>"

text \<open>
  The appliances table after \<^verbatim>\<open>init_db\<close> on an empty database: the loop over the floors
  1 to 7 and the five appliance templates, with the id \<^verbatim>\<open>f'k{floor}-{app_type}{idx+1}'\<close>.
\<close>

definition provisioned_appliances :: "appliance list" where
  "provisioned_appliances =
     [\<lparr>app_id = ''k1-microwave1'', app_kitchen_id = 1, app_type = ''microwave'', app_name = ''Microwave 1''\<rparr>,
      \<lparr>app_id = ''k1-microwave2'', app_kitchen_id = 1, app_type = ''microwave'', app_name = ''Microwave 2''\<rparr>,
      \<lparr>app_id = ''k1-oven3'', app_kitchen_id = 1, app_type = ''oven'', app_name = ''Oven''\<rparr>,
      \<lparr>app_id = ''k1-stove_left4'', app_kitchen_id = 1, app_type = ''stove_left'', app_name = ''Stove Left''\<rparr>,
      \<lparr>app_id = ''k1-stove_right5'', app_kitchen_id = 1, app_type = ''stove_right'', app_name = ''Stove Right''\<rparr>,
      \<lparr>app_id = ''k2-microwave1'', app_kitchen_id = 2, app_type = ''microwave'', app_name = ''Microwave 1''\<rparr>,
      \<lparr>app_id = ''k2-microwave2'', app_kitchen_id = 2, app_type = ''microwave'', app_name = ''Microwave 2''\<rparr>,
      \<lparr>app_id = ''k2-oven3'', app_kitchen_id = 2, app_type = ''oven'', app_name = ''Oven''\<rparr>,
      \<lparr>app_id = ''k2-stove_left4'', app_kitchen_id = 2, app_type = ''stove_left'', app_name = ''Stove Left''\<rparr>,
      \<lparr>app_id = ''k2-stove_right5'', app_kitchen_id = 2, app_type = ''stove_right'', app_name = ''Stove Right''\<rparr>,
      \<lparr>app_id = ''k3-microwave1'', app_kitchen_id = 3, app_type = ''microwave'', app_name = ''Microwave 1''\<rparr>,
      \<lparr>app_id = ''k3-microwave2'', app_kitchen_id = 3, app_type = ''microwave'', app_name = ''Microwave 2''\<rparr>,
      \<lparr>app_id = ''k3-oven3'', app_kitchen_id = 3, app_type = ''oven'', app_name = ''Oven''\<rparr>,
      \<lparr>app_id = ''k3-stove_left4'', app_kitchen_id = 3, app_type = ''stove_left'', app_name = ''Stove Left''\<rparr>,
      \<lparr>app_id = ''k3-stove_right5'', app_kitchen_id = 3, app_type = ''stove_right'', app_name = ''Stove Right''\<rparr>,
      \<lparr>app_id = ''k4-microwave1'', app_kitchen_id = 4, app_type = ''microwave'', app_name = ''Microwave 1''\<rparr>,
      \<lparr>app_id = ''k4-microwave2'', app_kitchen_id = 4, app_type = ''microwave'', app_name = ''Microwave 2''\<rparr>,
      \<lparr>app_id = ''k4-oven3'', app_kitchen_id = 4, app_type = ''oven'', app_name = ''Oven''\<rparr>,
      \<lparr>app_id = ''k4-stove_left4'', app_kitchen_id = 4, app_type = ''stove_left'', app_name = ''Stove Left''\<rparr>,
      \<lparr>app_id = ''k4-stove_right5'', app_kitchen_id = 4, app_type = ''stove_right'', app_name = ''Stove Right''\<rparr>,
      \<lparr>app_id = ''k5-microwave1'', app_kitchen_id = 5, app_type = ''microwave'', app_name = ''Microwave 1''\<rparr>,
      \<lparr>app_id = ''k5-microwave2'', app_kitchen_id = 5, app_type = ''microwave'', app_name = ''Microwave 2''\<rparr>,
      \<lparr>app_id = ''k5-oven3'', app_kitchen_id = 5, app_type = ''oven'', app_name = ''Oven''\<rparr>,
      \<lparr>app_id = ''k5-stove_left4'', app_kitchen_id = 5, app_type = ''stove_left'', app_name = ''Stove Left''\<rparr>,
      \<lparr>app_id = ''k5-stove_right5'', app_kitchen_id = 5, app_type = ''stove_right'', app_name = ''Stove Right''\<rparr>,
      \<lparr>app_id = ''k6-microwave1'', app_kitchen_id = 6, app_type = ''microwave'', app_name = ''Microwave 1''\<rparr>,
      \<lparr>app_id = ''k6-microwave2'', app_kitchen_id = 6, app_type = ''microwave'', app_name = ''Microwave 2''\<rparr>,
      \<lparr>app_id = ''k6-oven3'', app_kitchen_id = 6, app_type = ''oven'', app_name = ''Oven''\<rparr>,
      \<lparr>app_id = ''k6-stove_left4'', app_kitchen_id = 6, app_type = ''stove_left'', app_name = ''Stove Left''\<rparr>,
      \<lparr>app_id = ''k6-stove_right5'', app_kitchen_id = 6, app_type = ''stove_right'', app_name = ''Stove Right''\<rparr>,
      \<lparr>app_id = ''k7-microwave1'', app_kitchen_id = 7, app_type = ''microwave'', app_name = ''Microwave 1''\<rparr>,
      \<lparr>app_id = ''k7-microwave2'', app_kitchen_id = 7, app_type = ''microwave'', app_name = ''Microwave 2''\<rparr>,
      \<lparr>app_id = ''k7-oven3'', app_kitchen_id = 7, app_type = ''oven'', app_name = ''Oven''\<rparr>,
      \<lparr>app_id = ''k7-stove_left4'', app_kitchen_id = 7, app_type = ''stove_left'', app_name = ''Stove Left''\<rparr>,
      \<lparr>app_id = ''k7-stove_right5'', app_kitchen_id = 7, app_type = ''stove_right'', app_name = ''Stove Right''\<rparr>]"

text \<open>
  Two session tokens as \<^verbatim>\<open>secrets.token_urlsafe(32)\<close> produces them, two ISIC numbers
  that pass the format check of \<^verbatim>\<open>login\<close>, and the state after both have logged in on a
  freshly provisioned database.
\<close>

definition token_a :: string where
  "token_a = ''q1Xw0pZr8tVn3LmKs5Jd7HfGb2Yc9Ua4Ei6Oo_Tt-RrE''"

definition token_b :: string where
  "token_b = ''Zk4Nn7Bv1Cx8Ml2Kj5Hg9Fd3Sa6Po0Iu_Yt-Re4Wq7Et''"

definition isic_a :: string where
  "isic_a = ''S1234567890''"

definition isic_b :: string where
  "isic_b = ''S0987654321''"

definition s_init :: state where
  "s_init = \<lparr>tokens = [token_a \<mapsto> isic_a, token_b \<mapsto> isic_b], users = [],
             appliances = provisioned_appliances, reservations = []\<rparr>"
text \<open>
  A date, the row that the first identity books on it (the oven of kitchen 1, 10:00 to
  10:30), and the state after that booking.
\<close>

definition day :: string where
  "day = ''2025-03-01''"

definition row_a :: reservation where
  "row_a = new_row isic_a day ''10:00'' ''10:30'' 1 ''k1-oven3'' ''oven''"

definition s_booked :: state where
  "s_booked = snd (create_reservation s_init day ''10:00'' ''10:30'' 1 ''k1-oven3'' token_a)"

text \<open>
  Every stored reservation refers to an appliance of the catalogue.
\<close>

definition rows_have_appliances :: "state \<Rightarrow> bool" where
  "rows_have_appliances s =
     (\<forall>r \<in> set (reservations s). \<exists>a \<in> set (appliances s). app_id a = appliance_id r)"

text \<open>
  The state after the owner has cancelled that booking.
\<close>

definition s_cancelled :: state where
  "s_cancelled = snd (cancel_reservation s_booked (reservation_id isic_a day ''10:00'' ''10:30'') token_a)"

text \<open>
  The overlap rule for two intervals s1 to e1 and s2 to e2; two stored reservations with different ids, both confirmed, on the same appliance and date, whose intervals overlap; the property that no such pair shares its kitchen id; the row and the state after the second identity has booked the oven of kitchen 1 under kitchen id 2 from 10:15 to 10:45; and the invariant of the reachable states (ids are unique, no double booking within a kitchen id).
\<close>

definition overlap :: "string \<Rightarrow> string \<Rightarrow> string \<Rightarrow> string \<Rightarrow> bool" where
  "overlap s1 e1 s2 e2 = (s1 < e2 \<and> s2 < e1)"

definition double_booked :: "reservation \<Rightarrow> reservation \<Rightarrow> bool" where
  "double_booked r1 r2 =
     (res_id r1 \<noteq> res_id r2 \<and> status r1 = ''confirmed'' \<and> status r2 = ''confirmed''
      \<and> appliance_id r1 = appliance_id r2 \<and> res_date r1 = res_date r2
      \<and> overlap (start_time r1) (end_time r1) (start_time r2) (end_time r2))"

definition no_double_booking :: "reservation list \<Rightarrow> bool" where
  "no_double_booking rows =
     (\<forall>r1 \<in> set rows. \<forall>r2 \<in> set rows.
        \<not> (double_booked r1 r2 \<and> kitchen_id r1 = kitchen_id r2))"

definition row_b_other_kitchen :: reservation where
  "row_b_other_kitchen = new_row isic_b day ''10:15'' ''10:45'' 2 ''k1-oven3'' ''oven''"

definition s_double :: state where
  "s_double = snd (create_reservation s_booked day ''10:15'' ''10:45'' 2 ''k1-oven3'' token_b)"

definition pk_and_no_double_booking :: "state \<Rightarrow> bool" where
  "pk_and_no_double_booking s =
     (distinct (map res_id (reservations s)) \<and> no_double_booking (reservations s))"

text \<open>
  The row and the state after the first identity has booked the oven of kitchen 1 from 11:00
  to 10:00 on the freshly provisioned database.
\<close>

definition row_inverted :: reservation where
  "row_inverted = new_row isic_a day ''11:00'' ''10:00'' 1 ''k1-oven3'' ''oven''"

definition s_inverted :: state where
  "s_inverted = snd (create_reservation s_init day ''11:00'' ''10:00'' 1 ''k1-oven3'' token_a)"

text \<open>
  The key of the conflict query: a confirmed row with the given date, kitchen id and appliance id.
\<close>

definition same_slot_key :: "string \<Rightarrow> int \<Rightarrow> string \<Rightarrow> reservation \<Rightarrow> bool" where
  "same_slot_key d kitchenId applianceId r =
     (status r = ''confirmed'' \<and> res_date r = d \<and> kitchen_id r = kitchenId
      \<and> appliance_id r = applianceId)"

text \<open>
  The dictionary that the grouping loop of get_availability appends for a stored reservation.
\<close>

definition slot_of :: "reservation \<Rightarrow> slot" where
  "slot_of r = \<lparr>slot_id = appliance_id r, slot_startTime = start_time r,
               slot_endTime = end_time r, slot_userId = 1\<rparr>"

text \<open>
  Two enrolled users with unit embeddings, the state in which both are enrolled, the state after the first of them has booked the oven of kitchen 1 from 10:00 to 10:30, and a clock reading on the day of that booking.
\<close>

definition user_a :: user where
  "user_a = \<lparr>user_isic_number = isic_a, user_name = ''User 7890'',
             face_embedding = Some [1, 0]\<rparr>"

definition user_b :: user where
  "user_b = \<lparr>user_isic_number = isic_b, user_name = ''User 4321'',
             face_embedding = Some [0, 1]\<rparr>"

definition s_enrolled :: state where
  "s_enrolled = s_init\<lparr>users := [user_a, user_b]\<rparr>"

definition s_door :: state where
  "s_door = snd (create_reservation s_enrolled day ''10:00'' ''10:30'' 1 ''k1-oven3'' token_a)"

definition at_time :: "nat \<Rightarrow> nat \<Rightarrow> nat \<Rightarrow> datetime" where
  "at_time h m sec = \<lparr>dt_year = 2025, dt_month = 3, dt_day = 1, dt_hour = h, dt_minute = m,
                       dt_second = sec\<rparr>"




section \<open>Basic facts about the handlers\<close>

lemma conflicts_zero_iff:
  "conflicts s d k a st en = 0 \<longleftrightarrow> (\<forall>r \<in> set (reservations s). \<not> conflict_row d k a st en r)"
  by (simp add: conflicts_def filter_empty_conv)

lemma create_reservation_ok:
  assumes "tokens s token = Some isic" "isic \<noteq> []"
    and "conflicts s d k a st en = 0"
    and "select_appliance_type s a = Some ty"
    and "\<forall>r \<in> set (reservations s). res_id r \<noteq> reservation_id isic d st en"
  shows "create_reservation s d st en k a token =
           (Inr (reservation_id isic d st en),
            s\<lparr>reservations := reservations s @ [new_row isic d st en k a ty]\<rparr>)"
  using assms
  by (simp add: create_reservation_def verify_token_def py_not_def insert_reservation_def
        new_row_def Let_def)

lemma create_reservation_cases:
  "create_reservation s d st en k a token = (res, s') \<Longrightarrow>
     (s' = s \<and> (\<exists>e. res = Inl e)) \<or>
     (\<exists>isic ty. tokens s token = Some isic \<and> isic \<noteq> [] \<and> conflicts s d k a st en = 0
        \<and> select_appliance_type s a = Some ty
        \<and> (\<forall>r \<in> set (reservations s). res_id r \<noteq> reservation_id isic d st en)
        \<and> res = Inr (reservation_id isic d st en)
        \<and> s' = s\<lparr>reservations := reservations s @ [new_row isic d st en k a ty]\<rparr>)"
  by (auto simp add: create_reservation_def verify_token_def py_not_def insert_reservation_def
       new_row_def Let_def split: option.splits if_splits)

lemma cancel_reservation_cases:
  "cancel_reservation s rid token = (res, s') \<Longrightarrow>
     (s' = s \<and> (\<exists>e. res = Inl e)) \<or>
     (\<exists>isic. tokens s token = Some isic \<and> isic \<noteq> [] \<and> select_owner s rid = Some isic
        \<and> res = Inr ''Reservation cancelled successfully'' \<and> s' = update_cancelled s rid)"
  by (auto simp add: cancel_reservation_def verify_token_def py_not_def Let_def
       split: option.splits if_splits)

lemma token_a_neq_b: "token_a \<noteq> token_b"
  by (simp add: token_a_def token_b_def)

lemma s_init_tokens:
  "tokens s_init token_a = Some isic_a" "tokens s_init token_b = Some isic_b"
  using token_a_neq_b by (simp_all add: s_init_def)

lemma s_init_fields:
  "reservations s_init = []" "appliances s_init = provisioned_appliances" "users s_init = []"
  by (simp_all add: s_init_def)

lemma isic_nonempty: "isic_a \<noteq> []" "isic_b \<noteq> []" "isic_a \<noteq> isic_b"
  by (simp_all add: isic_a_def isic_b_def)

lemma oven_k1: "find (\<lambda>a. app_id a = ''k1-oven3'') provisioned_appliances =
   Some \<lparr>app_id = ''k1-oven3'', app_kitchen_id = 1, app_type = ''oven'', app_name = ''Oven''\<rparr>"
  by (simp add: provisioned_appliances_def)

lemma select_oven_k1:
  "appliances s = provisioned_appliances \<Longrightarrow> select_appliance_type s ''k1-oven3'' = Some ''oven''"
  by (simp add: select_appliance_type_def oven_k1)

lemma create_reservation_error_unchanged:
  assumes "fst (create_reservation s d st en k a token) = Inl e"
  shows "snd (create_reservation s d st en k a token) = s"
proof -
  obtain res s' where eq: "create_reservation s d st en k a token = (res, s')"
    by (cases "create_reservation s d st en k a token")
  from create_reservation_cases [OF eq] assms eq show ?thesis by auto
qed

lemma book_a:
  "create_reservation s_init day ''10:00'' ''10:30'' 1 ''k1-oven3'' token_a =
     (Inr (reservation_id isic_a day ''10:00'' ''10:30''), s_init\<lparr>reservations := [row_a]\<rparr>)"
  using create_reservation_ok [of s_init token_a isic_a day 1 "''k1-oven3''" "''10:00''" "''10:30''" "''oven''"]
  by (simp add: s_init_tokens isic_nonempty select_oven_k1 s_init_fields conflicts_def row_a_def)

lemma s_booked_eq: "s_booked = s_init\<lparr>reservations := [row_a]\<rparr>"
  by (simp add: s_booked_def book_a)

lemma s_booked_fields:
  "reservations s_booked = [row_a]" "appliances s_booked = provisioned_appliances"
  "tokens s_booked = tokens s_init"
  by (simp_all add: s_booked_eq s_init_fields)

lemma row_a_fields:
  "res_id row_a = reservation_id isic_a day ''10:00'' ''10:30''" "isic_number row_a = isic_a"
  "res_date row_a = day" "start_time row_a = ''10:00''" "end_time row_a = ''10:30''"
  "kitchen_id row_a = 1" "appliance_id row_a = ''k1-oven3''" "status row_a = ''confirmed''"
  by (simp_all add: row_a_def new_row_def)

lemma select_appliance_type_Some:
  "select_appliance_type s a = Some ty \<Longrightarrow> \<exists>b \<in> set (appliances s). app_id b = a"
  by (auto simp add: select_appliance_type_def find_Some_iff)

lemma select_appliance_type_None:
  "\<forall>b \<in> set (appliances s). app_id b \<noteq> a \<Longrightarrow> select_appliance_type s a = None"
  by (simp add: select_appliance_type_def find_None_iff)

lemma rows_have_appliances_book:
  assumes "rows_have_appliances s"
  shows "rows_have_appliances (snd (create_reservation s d st en k a token))"
proof -
  obtain res s' where eq: "create_reservation s d st en k a token = (res, s')"
    by (cases "create_reservation s d st en k a token")
  from create_reservation_cases [OF eq] show ?thesis
  proof
    assume "s' = s \<and> (\<exists>e. res = Inl e)"
    with assms eq show ?thesis by simp
  next
    assume "\<exists>isic ty. tokens s token = Some isic \<and> isic \<noteq> [] \<and> conflicts s d k a st en = 0
        \<and> select_appliance_type s a = Some ty
        \<and> (\<forall>r \<in> set (reservations s). res_id r \<noteq> reservation_id isic d st en)
        \<and> res = Inr (reservation_id isic d st en)
        \<and> s' = s\<lparr>reservations := reservations s @ [new_row isic d st en k a ty]\<rparr>"
    then obtain isic ty where ty: "select_appliance_type s a = Some ty"
      and s': "s' = s\<lparr>reservations := reservations s @ [new_row isic d st en k a ty]\<rparr>"
      by blast
    from select_appliance_type_Some [OF ty] assms s' eq show ?thesis
      by (auto simp add: rows_have_appliances_def new_row_def)
  qed
qed

lemma rows_have_appliances_cancel:
  assumes "rows_have_appliances s"
  shows "rows_have_appliances (snd (cancel_reservation s rid token))"
proof -
  obtain res s' where eq: "cancel_reservation s rid token = (res, s')"
    by (cases "cancel_reservation s rid token")
  from cancel_reservation_cases [OF eq] assms eq show ?thesis
    by (auto simp add: rows_have_appliances_def update_cancelled_def)
qed

lemma reachable_rows_have_appliances: "reachable s \<Longrightarrow> rows_have_appliances s"
proof (induction rule: reachable.induct)
  case (start s)
  then show ?case by (simp add: rows_have_appliances_def)
next
  case (book s d startTime endTime kitchenId applianceId token)
  then show ?case by (simp add: rows_have_appliances_book)
next
  case (cancel s rid token)
  then show ?case by (simp add: rows_have_appliances_cancel)
next
  case (issue s token isic)
  then show ?case by (simp add: rows_have_appliances_def generate_token_def)
qed

lemma no_conflict_without_appliance:
  assumes "rows_have_appliances s" and "\<forall>b \<in> set (appliances s). app_id b \<noteq> a"
  shows "conflicts s d k a st en = 0"
  using assms by (auto simp add: conflicts_zero_iff conflict_row_def rows_have_appliances_def)

lemma reachable_s_init: "reachable s_init"
  by (rule reachable.start) (simp add: s_init_fields)

lemma no_k9: "\<forall>a \<in> set provisioned_appliances. app_id a \<noteq> ''k9-oven3''"
  by (simp add: provisioned_appliances_def)

lemma conflicts_update_cancelled:
  "conflicts (update_cancelled s rid) d k a st en =
     length (filter (\<lambda>r. res_id r \<noteq> rid \<and> conflict_row d k a st en r) (reservations s))"
proof -
  have "filter (conflict_row d k a st en)
          (map (\<lambda>r. if res_id r = rid then r\<lparr>status := ''cancelled''\<rparr> else r) rs)
        = map (\<lambda>r. if res_id r = rid then r\<lparr>status := ''cancelled''\<rparr> else r)
            (filter (\<lambda>r. res_id r \<noteq> rid \<and> conflict_row d k a st en r) rs)" for rs
    by (induction rs) (auto simp add: conflict_row_def sql_conflict_def)
  then show ?thesis
    by (simp add: conflicts_def update_cancelled_def)
qed

lemma rebook_after_cancel:
  assumes b: "create_reservation s d st en k a token = (Inr rid, s1)"
    and c: "cancel_reservation s1 rid token = (Inr msg, s2)"
  shows "create_reservation s2 d st en k a token = (Inl ConstraintException, s2)"
proof -
  from create_reservation_cases [OF b] obtain isic ty where
    tok: "tokens s token = Some isic" "isic \<noteq> []"
    and nc: "conflicts s d k a st en = 0"
    and ty: "select_appliance_type s a = Some ty"
    and fresh: "\<forall>r \<in> set (reservations s). res_id r \<noteq> reservation_id isic d st en"
    and rid: "rid = reservation_id isic d st en"
    and s1: "s1 = s\<lparr>reservations := reservations s @ [new_row isic d st en k a ty]\<rparr>"
    by auto
  from cancel_reservation_cases [OF c] have s2: "s2 = update_cancelled s1 rid" by auto
  have tok2: "tokens s2 token = Some isic"
    using tok s1 s2 by (simp add: update_cancelled_def)
  have ty2: "select_appliance_type s2 a = Some ty"
    using ty s1 s2 by (simp add: update_cancelled_def select_appliance_type_def)
  have "conflicts s2 d k a st en =
          length (filter (\<lambda>r. res_id r \<noteq> rid \<and> conflict_row d k a st en r) (reservations s1))"
    unfolding s2 by (rule conflicts_update_cancelled)
  also have "\<dots> = length (filter (\<lambda>r. res_id r \<noteq> rid) (filter (conflict_row d k a st en) (reservations s)))"
    using s1 rid by (simp add: new_row_def conj_commute)
  also have "\<dots> \<le> length (filter (conflict_row d k a st en) (reservations s))"
    by (rule length_filter_le)
  finally have nc2: "conflicts s2 d k a st en = 0"
    using nc by (simp add: conflicts_def)
  have stored: "\<exists>r \<in> set (reservations s2). res_id r = reservation_id isic d st en"
    using s1 s2 rid by (auto simp add: update_cancelled_def new_row_def)
  show ?thesis
    using tok2 tok(2) nc2 ty2 stored
    by (simp add: create_reservation_def verify_token_def py_not_def Let_def
          insert_reservation_def)
qed

lemma cancel_a:
  "cancel_reservation s_booked (reservation_id isic_a day ''10:00'' ''10:30'') token_a =
     (Inr ''Reservation cancelled successfully'',
      s_init\<lparr>reservations := [row_a\<lparr>status := ''cancelled''\<rparr>]\<rparr>)"
  by (simp add: cancel_reservation_def verify_token_def py_not_def Let_def select_owner_def
        s_booked_fields row_a_fields s_init_tokens isic_nonempty update_cancelled_def s_booked_eq)

lemma s_cancelled_eq: "s_cancelled = s_init\<lparr>reservations := [row_a\<lparr>status := ''cancelled''\<rparr>]\<rparr>"
  by (simp add: s_cancelled_def cancel_a)

lemma select_owner_None_iff:
  "select_owner s rid = None \<longleftrightarrow> (\<forall>r \<in> set (reservations s). res_id r \<noteq> rid)"
  by (auto simp add: select_owner_def find_None_iff)

lemma select_owner_booked:
  "select_owner s_booked ''no-such-reservation'' = None"
  "select_owner s_booked (reservation_id isic_a day ''10:00'' ''10:30'') = Some isic_a"
  by (simp_all add: select_owner_def s_booked_fields row_a_fields reservation_id_def isic_a_def)

lemma s_booked_tokens:
  "tokens s_booked token_a = Some isic_a" "tokens s_booked token_b = Some isic_b"
  by (simp_all add: s_booked_fields s_init_tokens)

lemma overlap_commute: "overlap s1 e1 s2 e2 = overlap s2 e2 s1 e1"
  by (auto simp add: overlap_def)

lemma overlap_imp_sql_conflict:
  "overlap (start_time r) (end_time r) st en \<Longrightarrow> sql_conflict r st en"
  unfolding overlap_def sql_conflict_def
  by (metis less_imp_le not_le_imp_less)

lemma sql_conflict_imp_overlap:
  "start_time r < end_time r \<Longrightarrow> st < en \<Longrightarrow> sql_conflict r st en
     \<Longrightarrow> overlap (start_time r) (end_time r) st en"
  unfolding overlap_def sql_conflict_def
  by (metis le_less_trans less_le_trans)

lemma reservation_id_inject_isic:
  "length i1 = length i2 \<Longrightarrow> reservation_id i1 d st en = reservation_id i2 d' st' en' \<Longrightarrow> i1 = i2"
  by (simp add: reservation_id_def)

lemma id_a_neq_b: "reservation_id isic_a d st en \<noteq> reservation_id isic_b d' st' en'"
proof
  assume "reservation_id isic_a d st en = reservation_id isic_b d' st' en'"
  then have "isic_a = isic_b"
    by (rule reservation_id_inject_isic [rotated]) (simp add: isic_a_def isic_b_def)
  then show False using isic_nonempty(3) by simp
qed

lemma book_b_other_kitchen:
  "create_reservation s_booked day ''10:15'' ''10:45'' 2 ''k1-oven3'' token_b =
     (Inr (reservation_id isic_b day ''10:15'' ''10:45''),
      s_booked\<lparr>reservations := [row_a, row_b_other_kitchen]\<rparr>)"
  using create_reservation_ok [of s_booked token_b isic_b day 2 "''k1-oven3''" "''10:15''" "''10:45''" "''oven''"]
    id_a_neq_b [of day "''10:00''" "''10:30''" day "''10:15''" "''10:45''"]
  by (simp add: s_init_tokens isic_nonempty select_oven_k1 s_booked_fields conflicts_def
        conflict_row_def row_a_fields row_b_other_kitchen_def)

lemma s_double_rows: "reservations s_double = [row_a, row_b_other_kitchen]"
  by (simp add: s_double_def book_b_other_kitchen)

lemma reachable_s_booked: "reachable s_booked"
  unfolding s_booked_def by (rule reachable.book) (rule reachable_s_init)

lemma reachable_s_double: "reachable s_double"
  unfolding s_double_def by (rule reachable.book) (rule reachable_s_booked)

lemma inv_book:
  assumes "pk_and_no_double_booking s"
  shows "pk_and_no_double_booking (snd (create_reservation s d st en k a token))"
proof -
  obtain res s' where eq: "create_reservation s d st en k a token = (res, s')"
    by (cases "create_reservation s d st en k a token")
  from create_reservation_cases [OF eq] show ?thesis
  proof
    assume "s' = s \<and> (\<exists>e. res = Inl e)"
    with assms eq show ?thesis by simp
  next
    assume "\<exists>isic ty. tokens s token = Some isic \<and> isic \<noteq> [] \<and> conflicts s d k a st en = 0
        \<and> select_appliance_type s a = Some ty
        \<and> (\<forall>r \<in> set (reservations s). res_id r \<noteq> reservation_id isic d st en)
        \<and> res = Inr (reservation_id isic d st en)
        \<and> s' = s\<lparr>reservations := reservations s @ [new_row isic d st en k a ty]\<rparr>"
    then obtain isic ty where nc: "conflicts s d k a st en = 0"
      and fresh: "\<forall>r \<in> set (reservations s). res_id r \<noteq> reservation_id isic d st en"
      and s': "s' = s\<lparr>reservations := reservations s @ [new_row isic d st en k a ty]\<rparr>"
      by blast
    let ?n = "new_row isic d st en k a ty"
    have n_fields: "res_id ?n = reservation_id isic d st en" "res_date ?n = d"
      "start_time ?n = st" "end_time ?n = en" "kitchen_id ?n = k" "appliance_id ?n = a"
      by (simp_all add: new_row_def)
    have no_old: "\<not> (double_booked r ?n \<and> kitchen_id r = kitchen_id ?n)"
      if "r \<in> set (reservations s)" for r
    proof
      assume db: "double_booked r ?n \<and> kitchen_id r = kitchen_id ?n"
      then have "conflict_row d k a st en r"
        using overlap_imp_sql_conflict [of r st en]
        by (simp add: double_booked_def conflict_row_def n_fields)
      with nc that show False by (simp add: conflicts_zero_iff)
    qed
    have no_old': "\<not> (double_booked ?n r \<and> kitchen_id ?n = kitchen_id r)"
      if "r \<in> set (reservations s)" for r
      using no_old [OF that] overlap_commute [of "start_time r" "end_time r" st en]
      by (auto simp add: double_booked_def n_fields)
    have self: "\<not> double_booked ?n ?n" by (simp add: double_booked_def)
    have d: "distinct (map res_id (reservations s'))"
      using assms fresh s' by (auto simp add: pk_and_no_double_booking_def n_fields)
    have "no_double_booking (reservations s')"
      using assms no_old no_old' self s'
      by (auto simp add: pk_and_no_double_booking_def no_double_booking_def)
    with d eq show ?thesis by (simp add: pk_and_no_double_booking_def)
  qed
qed

lemma double_booked_cancelled:
  "double_booked (if res_id r1 = rid then r1\<lparr>status := ''cancelled''\<rparr> else r1)
                 (if res_id r2 = rid then r2\<lparr>status := ''cancelled''\<rparr> else r2)
   \<Longrightarrow> double_booked r1 r2"
  by (auto simp add: double_booked_def split: if_splits)

lemma inv_cancel:
  assumes "pk_and_no_double_booking s"
  shows "pk_and_no_double_booking (snd (cancel_reservation s rid token))"
proof -
  obtain res s' where eq: "cancel_reservation s rid token = (res, s')"
    by (cases "cancel_reservation s rid token")
  from cancel_reservation_cases [OF eq] show ?thesis
  proof
    assume "s' = s \<and> (\<exists>e. res = Inl e)"
    with assms eq show ?thesis by simp
  next
    assume "\<exists>isic. tokens s token = Some isic \<and> isic \<noteq> [] \<and> select_owner s rid = Some isic
        \<and> res = Inr ''Reservation cancelled successfully'' \<and> s' = update_cancelled s rid"
    then have s': "s' = update_cancelled s rid" by blast
    let ?f = "\<lambda>r. if res_id r = rid then r\<lparr>status := ''cancelled''\<rparr> else r"
    have ids: "map res_id (map ?f rs) = map res_id rs" for rs
      by (induction rs) auto
    have kid: "kitchen_id (?f r) = kitchen_id r" for r by simp
    have rs': "reservations s' = map ?f (reservations s)"
      by (simp add: s' update_cancelled_def)
    have "map res_id (reservations s') = map res_id (reservations s)"
      unfolding rs' by (rule ids)
    then have d: "distinct (map res_id (reservations s'))"
      using assms by (simp add: pk_and_no_double_booking_def)
    have "no_double_booking (reservations s')"
      unfolding no_double_booking_def s' update_cancelled_def
    proof (intro ballI)
      fix r1 r2
      assume "r1 \<in> set (reservations (s\<lparr>reservations := map ?f (reservations s)\<rparr>))"
        and "r2 \<in> set (reservations (s\<lparr>reservations := map ?f (reservations s)\<rparr>))"
      then obtain q1 q2 where q: "q1 \<in> set (reservations s)" "q2 \<in> set (reservations s)"
        and r: "r1 = ?f q1" "r2 = ?f q2" by auto
      from assms q have "\<not> (double_booked q1 q2 \<and> kitchen_id q1 = kitchen_id q2)"
        by (simp add: pk_and_no_double_booking_def no_double_booking_def)
      then show "\<not> (double_booked r1 r2 \<and> kitchen_id r1 = kitchen_id r2)"
        using double_booked_cancelled [of q1 rid q2] unfolding r kid by blast
    qed
    with d eq show ?thesis by (simp add: pk_and_no_double_booking_def)
  qed
qed

lemma reachable_inv: "reachable s \<Longrightarrow> pk_and_no_double_booking s"
proof (induction rule: reachable.induct)
  case (start s)
  then show ?case by (simp add: pk_and_no_double_booking_def no_double_booking_def)
next
  case (book s d startTime endTime kitchenId applianceId token)
  then show ?case by (simp add: inv_book)
next
  case (cancel s rid token)
  then show ?case by (simp add: inv_cancel)
next
  case (issue s token isic)
  then show ?case by (simp add: pk_and_no_double_booking_def generate_token_def)
qed

lemma book_inverted:
  "create_reservation s_init day ''11:00'' ''10:00'' 1 ''k1-oven3'' token_a =
     (Inr (reservation_id isic_a day ''11:00'' ''10:00''), s_init\<lparr>reservations := [row_inverted]\<rparr>)"
  using create_reservation_ok [of s_init token_a isic_a day 1 "''k1-oven3''" "''11:00''" "''10:00''" "''oven''"]
  by (simp add: s_init_tokens isic_nonempty select_oven_k1 s_init_fields conflicts_def
        row_inverted_def)

lemma s_inverted_fields:
  "reservations s_inverted = [row_inverted]" "appliances s_inverted = provisioned_appliances"
  by (simp_all add: s_inverted_def book_inverted s_init_fields)

lemma s_inverted_tokens:
  "tokens s_inverted token_a = Some isic_a" "tokens s_inverted token_b = Some isic_b"
  by (simp_all add: s_inverted_def book_inverted s_init_tokens)

lemma row_inverted_fields:
  "res_id row_inverted = reservation_id isic_a day ''11:00'' ''10:00''"
  "isic_number row_inverted = isic_a"
  "res_date row_inverted = day" "start_time row_inverted = ''11:00''"
  "end_time row_inverted = ''10:00''" "kitchen_id row_inverted = 1"
  "appliance_id row_inverted = ''k1-oven3''" "status row_inverted = ''confirmed''"
  by (simp_all add: row_inverted_def new_row_def)

lemma reachable_s_inverted: "reachable s_inverted"
  unfolding s_inverted_def by (rule reachable.book) (rule reachable_s_init)

lemma conflict_row_key:
  "conflict_row d k a st en r \<longleftrightarrow> same_slot_key d k a r \<and> sql_conflict r st en"
  by (auto simp add: conflict_row_def same_slot_key_def)

lemma create_reservation_conflict_iff:
  assumes "tokens s token = Some isic" and "isic \<noteq> []"
  shows "create_reservation s d st en k a token =
           (Inl (HTTPException 400 ''Time slot already reserved''), s)
         \<longleftrightarrow> (\<exists>r \<in> set (reservations s). conflict_row d k a st en r)"
proof (cases "conflicts s d k a st en = 0")
  case True
  then have none: "\<not> (\<exists>r \<in> set (reservations s). conflict_row d k a st en r)"
    by (simp add: conflicts_zero_iff)
  have "create_reservation s d st en k a token \<noteq>
           (Inl (HTTPException 400 ''Time slot already reserved''), s)"
    using assms True
    by (simp add: create_reservation_def verify_token_def py_not_def Let_def
          insert_reservation_def split: option.splits)
  with none show ?thesis by simp
next
  case False
  then have some: "\<exists>r \<in> set (reservations s). conflict_row d k a st en r"
    by (simp add: conflicts_zero_iff)
  have "create_reservation s d st en k a token =
           (Inl (HTTPException 400 ''Time slot already reserved''), s)"
    using assms False
    by (simp add: create_reservation_def verify_token_def py_not_def Let_def)
  with some show ?thesis by simp
qed

lemma conflict_iff_overlap:
  assumes "tokens s token = Some isic" and "isic \<noteq> []"
    and "startTime < endTime"
    and "\<forall>r \<in> set (reservations s).
           same_slot_key d kitchenId applianceId r \<longrightarrow> start_time r < end_time r"
  shows "create_reservation s d startTime endTime kitchenId applianceId token =
            (Inl (HTTPException 400 ''Time slot already reserved''), s)
          \<longleftrightarrow> (\<exists>r \<in> set (reservations s). same_slot_key d kitchenId applianceId r
                 \<and> overlap (start_time r) (end_time r) startTime endTime)"
proof -
  have eqv: "conflict_row d kitchenId applianceId startTime endTime r
        \<longleftrightarrow> same_slot_key d kitchenId applianceId r
            \<and> overlap (start_time r) (end_time r) startTime endTime"
    if "r \<in> set (reservations s)" for r
    using assms(3,4) that overlap_imp_sql_conflict [of r startTime endTime]
      sql_conflict_imp_overlap [of r startTime endTime]
    unfolding conflict_row_key by blast
  show ?thesis
    unfolding create_reservation_conflict_iff [OF assms(1,2)]
    using eqv by blast
qed

lemma conflict_iff_overlap_at_s_booked:
  "create_reservation s_booked day ''10:15'' ''10:45'' 1 ''k1-oven3'' token_b =
     (Inl (HTTPException 400 ''Time slot already reserved''), s_booked)
   \<and> create_reservation s_booked day ''10:30'' ''11:00'' 1 ''k1-oven3'' token_b \<noteq>
     (Inl (HTTPException 400 ''Time slot already reserved''), s_booked)"
proof -
  have valid: "\<forall>r \<in> set (reservations s_booked).
           same_slot_key day 1 ''k1-oven3'' r \<longrightarrow> start_time r < end_time r"
    by (simp add: s_booked_fields row_a_fields)
  have ov: "\<exists>r \<in> set (reservations s_booked). same_slot_key day 1 ''k1-oven3'' r
                 \<and> overlap (start_time r) (end_time r) ''10:15'' ''10:45''"
    by (simp add: s_booked_fields row_a_fields same_slot_key_def overlap_def)
  have touch: "\<not> (\<exists>r \<in> set (reservations s_booked). same_slot_key day 1 ''k1-oven3'' r
                 \<and> overlap (start_time r) (end_time r) ''10:30'' ''11:00'')"
    by (simp add: s_booked_fields row_a_fields same_slot_key_def overlap_def)
  have lt1: "''10:15'' < ''10:45''" by simp
  have lt2: "''10:30'' < ''11:00''" by simp
  from conflict_iff_overlap [OF s_booked_tokens(2) isic_nonempty(2) lt1 valid] ov
    conflict_iff_overlap [OF s_booked_tokens(2) isic_nonempty(2) lt2 valid] touch
  show ?thesis by blast
qed

lemma dict_get_group_reservation:
  "dict_get (group_reservation m res) k [] =
     (if fst res = k
      then dict_get m k [] @ [\<lparr>slot_id = fst res, slot_startTime = fst (snd res),
                               slot_endTime = snd (snd res), slot_userId = 1\<rparr>]
      else dict_get m k [])"
  by (auto simp add: group_reservation_def dict_get_def Let_def split: option.splits)

lemma dict_get_foldl_group_reservation:
  "dict_get (foldl group_reservation m rs) k [] =
     dict_get m k [] @
     map (\<lambda>res. \<lparr>slot_id = fst res, slot_startTime = fst (snd res),
                  slot_endTime = snd (snd res), slot_userId = 1\<rparr>)
       (filter (\<lambda>res. fst res = k) rs)"
proof (induction rs arbitrary: m)
  case Nil
  then show ?case by simp
next
  case (Cons res rs)
  show ?case
    by (simp add: Cons.IH dict_get_group_reservation)
qed

lemma get_availability_appliances:
  "resp_appliances (get_availability s d kitchen) =
     map (\<lambda>a. \<lparr>entry_applianceId = app_id a, entry_applianceType = app_type a,
                entry_applianceName = app_name a,
                entry_reservations =
                  map slot_of
                    (filter (\<lambda>r. appliance_id r = app_id a)
                       (filter (\<lambda>r. res_date r = d \<and> kitchen_id r = kitchen
                                    \<and> status r = ''confirmed'') (reservations s)))\<rparr>)
       (filter (\<lambda>a. app_kitchen_id a = kitchen) (appliances s))"
proof -
  have slots: "dict_get (foldl group_reservation Map.empty (select_reservations s d kitchen)) k [] =
      map slot_of
        (filter (\<lambda>r. appliance_id r = k)
           (filter (\<lambda>r. res_date r = d \<and> kitchen_id r = kitchen
                        \<and> status r = ''confirmed'') (reservations s)))" for k
  proof -
    have e: "dict_get Map.empty k [] = []" by (simp add: dict_get_def)
    show ?thesis
      by (simp add: dict_get_foldl_group_reservation e select_reservations_def filter_map
            comp_def slot_of_def conj_commute)
  qed
  show ?thesis
    by (simp add: get_availability_def Let_def select_appliances_def slots comp_def)
qed

lemma kitchen_1_appliances:
  "filter (\<lambda>a. app_kitchen_id a = 1) provisioned_appliances =
     [\<lparr>app_id = ''k1-microwave1'', app_kitchen_id = 1, app_type = ''microwave'', app_name = ''Microwave 1''\<rparr>,
      \<lparr>app_id = ''k1-microwave2'', app_kitchen_id = 1, app_type = ''microwave'', app_name = ''Microwave 2''\<rparr>,
      \<lparr>app_id = ''k1-oven3'', app_kitchen_id = 1, app_type = ''oven'', app_name = ''Oven''\<rparr>,
      \<lparr>app_id = ''k1-stove_left4'', app_kitchen_id = 1, app_type = ''stove_left'', app_name = ''Stove Left''\<rparr>,
      \<lparr>app_id = ''k1-stove_right5'', app_kitchen_id = 1, app_type = ''stove_right'', app_name = ''Stove Right''\<rparr>]"
  by (simp add: provisioned_appliances_def)

lemma reachable_isic_nonempty:
  "reachable s \<Longrightarrow> \<forall>r \<in> set (reservations s). isic_number r \<noteq> []"
proof (induction rule: reachable.induct)
  case (start s)
  then show ?case by simp
next
  case (book s d startTime endTime kitchenId applianceId token)
  obtain res s' where eq: "create_reservation s d startTime endTime kitchenId applianceId token = (res, s')"
    by (cases "create_reservation s d startTime endTime kitchenId applianceId token")
  from create_reservation_cases [OF eq] book.IH eq show ?case
    by (auto simp add: new_row_def)
next
  case (cancel s rid token)
  obtain res s' where eq: "cancel_reservation s rid token = (res, s')"
    by (cases "cancel_reservation s rid token")
  from cancel_reservation_cases [OF eq] cancel.IH eq show ?case
    by (auto simp add: update_cancelled_def)
next
  case (issue s token isic)
  then show ?case by (simp add: generate_token_def)
qed

lemma esp_check_iff:
  "esp_check np s embedding now \<longleftrightarrow>
     (\<exists>I. find_matching_user np s embedding threshold_0_6 = Some I \<and> I \<noteq> []
        \<and> (\<exists>r \<in> set (reservations s). active_row I (strftime_Ymd now) (strftime_HM now) r))"
  by (auto simp add: esp_check_def Let_def py_not_def filter_empty_conv split: option.splits)

lemma s_enrolled_fields:
  "reservations s_enrolled = []" "appliances s_enrolled = provisioned_appliances"
  "users s_enrolled = [user_a, user_b]"
  "tokens s_enrolled token_a = Some isic_a" "tokens s_enrolled token_b = Some isic_b"
  by (simp_all add: s_enrolled_def s_init_fields s_init_tokens)

lemma book_door:
  "create_reservation s_enrolled day ''10:00'' ''10:30'' 1 ''k1-oven3'' token_a =
     (Inr (reservation_id isic_a day ''10:00'' ''10:30''), s_enrolled\<lparr>reservations := [row_a]\<rparr>)"
  using create_reservation_ok [of s_enrolled token_a isic_a day 1 "''k1-oven3''" "''10:00''" "''10:30''" "''oven''"]
  by (simp add: s_enrolled_fields isic_nonempty select_oven_k1 conflicts_def row_a_def)

lemma s_door_fields:
  "reservations s_door = [row_a]" "users s_door = [user_a, user_b]"
  by (simp_all add: s_door_def book_door s_enrolled_fields)

lemma reachable_s_door: "reachable s_door"
  unfolding s_door_def
  by (rule reachable.book) (rule reachable.start, simp add: s_enrolled_fields)

lemma select_enrolled_s_door:
  "select_enrolled s_door = [(isic_a, [1, 0]), (isic_b, [0, 1])]"
  by (simp add: select_enrolled_def s_door_fields user_a_def user_b_def)

lemma exact_cosine_unit:
  "cosine_similarity exact_numpy [1, 0] [1, 0] = 1"
  "cosine_similarity exact_numpy [1, 0] [0, 1] = 0"
  "cosine_similarity exact_numpy [0, 1] [1, 0] = 0"
  "cosine_similarity exact_numpy [0, 1] [0, 1] = 1"
  "cosine_similarity exact_numpy [0, 0] [1, 0] = 0"
  "cosine_similarity exact_numpy [0, 0] [0, 1] = 0"
  by (simp_all add: cosine_similarity_def exact_numpy_def Let_def)

lemma threshold_0_6_bounds: "0 < threshold_0_6" "threshold_0_6 \<le> 1"
  by (simp_all add: threshold_0_6_def)

lemma resolve_s_door:
  "find_matching_user exact_numpy s_door [1, 0] threshold_0_6 = Some isic_a"
  "find_matching_user exact_numpy s_door [0, 0] threshold_0_6 = None"
  using threshold_0_6_bounds
  by (simp_all add: find_matching_user_def select_enrolled_s_door match_step_def Let_def
        exact_cosine_unit)

lemma strftime_at_time:
  "strftime_Ymd (at_time h m sec) = ''2025-03-01''"
  "strftime_HM (at_time 10 30 sec) = ''10:30''"
  "strftime_HM (at_time 10 31 sec) = ''10:31''"
  "strftime_HM (at_time 10 0 sec) = ''10:00''"
  "strftime_HM (at_time 9 59 sec) = ''09:59''"
  by (simp_all add: strftime_Ymd_def strftime_HM_def at_time_def digit_def)











section \<open>Claim C1: no two confirmed reservations overlap\<close>

text \<open>
  C1 (in every reachable state no two confirmed reservations on the same appliance id and
  date overlap) does not hold of the code. The conflict query of \<^verbatim>\<open>create_reservation\<close>
  requires \<^verbatim>\<open>kitchen_id = ?\<close> with the kitchen id of the request, and that kitchen id is
  never compared with the kitchen of the appliance. The catalogue holds the oven
  \<^verbatim>\<open>k1-oven3\<close> once, in kitchen 1. After the first identity has booked it from 10:00 to
  10:30 under kitchen 1, the second identity books it from 10:15 to 10:45 under kitchen 2:
  the state is reachable, both rows are confirmed, they name the same appliance and date,
  and their intervals overlap.
\<close>

theorem same_appliance_overlap_counterexample:
  "reachable s_double \<and> reservations s_double = [row_a, row_b_other_kitchen]
   \<and> double_booked row_a row_b_other_kitchen
   \<and> appliance_id row_a = ''k1-oven3'' \<and> appliance_id row_b_other_kitchen = ''k1-oven3''
   \<and> filter (\<lambda>a. app_id a = ''k1-oven3'') (appliances s_double) =
       [\<lparr>app_id = ''k1-oven3'', app_kitchen_id = 1, app_type = ''oven'', app_name = ''Oven''\<rparr>]"
proof -
  have apps: "appliances s_double = provisioned_appliances"
    by (simp add: s_double_def book_b_other_kitchen s_booked_fields)
  have one: "filter (\<lambda>a. app_id a = ''k1-oven3'') provisioned_appliances =
       [\<lparr>app_id = ''k1-oven3'', app_kitchen_id = 1, app_type = ''oven'', app_name = ''Oven''\<rparr>]"
    by (simp add: provisioned_appliances_def)
  have db: "double_booked row_a row_b_other_kitchen"
    using id_a_neq_b [of day "''10:00''" "''10:30''" day "''10:15''" "''10:45''"]
    by (simp add: double_booked_def row_a_fields row_b_other_kitchen_def new_row_def overlap_def)
  show ?thesis
    using db by (simp add: reachable_s_double s_double_rows apps one row_a_fields
                   row_b_other_kitchen_def new_row_def)
qed

text \<open>
  What the conflict query does exclude: in every reachable state the reservation ids are
  unique, and no two confirmed reservations with the same kitchen id, the same appliance id
  and the same date have overlapping intervals.
\<close>

lemma no_double_booking_per_kitchen:
  assumes "reachable s"
  shows "distinct (map res_id (reservations s)) \<and> no_double_booking (reservations s)"
  using reachable_inv [OF assms] by (simp add: pk_and_no_double_booking_def)

lemma no_double_booking_per_kitchen_at_s_double:
  "reachable s_double \<and> distinct (map res_id (reservations s_double))
   \<and> no_double_booking (reservations s_double)"
  using no_double_booking_per_kitchen [OF reachable_s_double] reachable_s_double by simp

section \<open>Claim C2: booking the same slot again after a cancellation\<close>

text \<open>
  C2. The claim is that after a successful booking and its cancellation by the owner, the
  same identity can book the same slot again. The code does not do this: the cancellation
  keeps the row (with status \<^verbatim>\<open>cancelled\<close>), the id of a reservation is derived from the
  identity, the date and the two times only, and \<^verbatim>\<open>id\<close> is the primary key of the table.
  On the freshly provisioned database: the first identity books the oven of kitchen 1 from
  10:00 to 10:30, cancels it, and books it again. The conflict query finds nothing (the
  cancellation has freed the interval), and the insert then fails on the primary key; the
  exception is not caught and no row is written.
\<close>

theorem rebook_after_cancel_fails:
  "create_reservation s_init day ''10:00'' ''10:30'' 1 ''k1-oven3'' token_a =
     (Inr (reservation_id isic_a day ''10:00'' ''10:30''), s_booked)
   \<and> cancel_reservation s_booked (reservation_id isic_a day ''10:00'' ''10:30'') token_a =
     (Inr ''Reservation cancelled successfully'', s_cancelled)
   \<and> map status (reservations s_cancelled) = [''cancelled'']
   \<and> conflicts s_cancelled day 1 ''k1-oven3'' ''10:00'' ''10:30'' = 0
   \<and> create_reservation s_cancelled day ''10:00'' ''10:30'' 1 ''k1-oven3'' token_a =
     (Inl ConstraintException, s_cancelled)"
proof -
  have b: "create_reservation s_init day ''10:00'' ''10:30'' 1 ''k1-oven3'' token_a =
     (Inr (reservation_id isic_a day ''10:00'' ''10:30''), s_booked)"
    by (simp add: book_a s_booked_eq)
  have c: "cancel_reservation s_booked (reservation_id isic_a day ''10:00'' ''10:30'') token_a =
     (Inr ''Reservation cancelled successfully'', s_cancelled)"
    by (simp add: cancel_a s_cancelled_eq)
  have st: "map status (reservations s_cancelled) = [''cancelled'']"
    by (simp add: s_cancelled_eq)
  have nc: "conflicts s_cancelled day 1 ''k1-oven3'' ''10:00'' ''10:30'' = 0"
    by (simp add: s_cancelled_eq conflicts_def conflict_row_def)
  from b c st nc rebook_after_cancel [OF b c] show ?thesis by simp
qed

section \<open>Claim C3: a request is rejected iff it overlaps\<close>

text \<open>
  C3 (a request for an existing appliance is rejected iff its interval overlaps a confirmed
  reservation on the same appliance and date) does not hold of the code. The conflict query
  counts only the rows stored under the kitchen id of the request, and that kitchen id is
  not compared with the kitchen of the appliance. In the reachable state where the oven
  \<^verbatim>\<open>k1-oven3\<close> is booked from 10:00 to 10:30, the request of the second identity for the
  same oven on the same date from 10:15 to 10:45 overlaps that reservation, and with
  \<^verbatim>\<open>kitchenId = 2\<close> it is accepted and stored. (For the rows stored under the kitchen id
  of the request, and intervals with start before end, rejection with
  \<^verbatim>\<open>400 Time slot already reserved\<close> is equivalent to an overlap: lemma
  \<open>conflict_iff_overlap\<close>.)
\<close>

theorem overlapping_request_accepted:
  "reachable s_booked \<and> reservations s_booked = [row_a]
   \<and> status row_a = ''confirmed'' \<and> appliance_id row_a = ''k1-oven3'' \<and> res_date row_a = day
   \<and> start_time row_a = ''10:00'' \<and> end_time row_a = ''10:30''
   \<and> overlap (start_time row_a) (end_time row_a) ''10:15'' ''10:45''
   \<and> tokens s_booked token_b = Some isic_b
   \<and> select_appliance_type s_booked ''k1-oven3'' = Some ''oven''
   \<and> create_reservation s_booked day ''10:15'' ''10:45'' 2 ''k1-oven3'' token_b =
       (Inr (reservation_id isic_b day ''10:15'' ''10:45''),
        s_booked\<lparr>reservations := [row_a, row_b_other_kitchen]\<rparr>)"
  by (simp add: reachable_s_booked s_booked_fields row_a_fields overlap_def s_init_tokens
        select_oven_k1 book_b_other_kitchen)

section \<open>Claim C4: requests with start not before end\<close>

text \<open>
  C4 as stated (a request with start \<ge> end is rejected as a validation error and nothing is
  persisted) fails: \<^verbatim>\<open>create_reservation\<close> never compares \<^verbatim>\<open>startTime\<close> with
  \<^verbatim>\<open>endTime\<close>. On the freshly provisioned database the request 11:00 to 10:00 for the oven
  of kitchen 1 succeeds and its row is stored.
\<close>

theorem start_not_before_end_counterexample:
  "''10:00'' \<le> ''11:00''
   \<and> create_reservation s_init day ''11:00'' ''10:00'' 1 ''k1-oven3'' token_a =
       (Inr (reservation_id isic_a day ''11:00'' ''10:00''),
        s_init\<lparr>reservations := [new_row isic_a day ''11:00'' ''10:00'' 1 ''k1-oven3'' ''oven'']\<rparr>)"
  using create_reservation_ok [of s_init token_a isic_a day 1 "''k1-oven3''" "''11:00''" "''10:00''" "''oven''"]
  by (simp add: s_init_tokens isic_nonempty select_oven_k1 s_init_fields conflicts_def)

text \<open>
  C4, amended. A request with start \<ge> end is handled like any other request: whenever
  \<^verbatim>\<open>create_reservation\<close> raises, the state is unchanged; and with a valid token, an
  existing appliance, a conflict count of 0 and a derived id that is not stored yet, the
  request succeeds and the confirmed row with that start and end is appended.
\<close>

theorem start_end_not_validated:
  assumes "endTime \<le> startTime"
  shows "(\<forall>e. fst (create_reservation s d startTime endTime kitchenId applianceId token) = Inl e
            \<longrightarrow> snd (create_reservation s d startTime endTime kitchenId applianceId token) = s)
       \<and> (tokens s token = Some isic \<and> isic \<noteq> []
            \<and> select_appliance_type s applianceId = Some ty
            \<and> conflicts s d kitchenId applianceId startTime endTime = 0
            \<and> (\<forall>r \<in> set (reservations s). res_id r \<noteq> reservation_id isic d startTime endTime)
          \<longrightarrow> create_reservation s d startTime endTime kitchenId applianceId token =
                (Inr (reservation_id isic d startTime endTime),
                 s\<lparr>reservations := reservations s @
                      [new_row isic d startTime endTime kitchenId applianceId ty]\<rparr>))"
  using create_reservation_error_unchanged create_reservation_ok by blast

theorem start_end_not_validated_witness:
  "''10:00'' \<le> ''11:00''
   \<and> fst (create_reservation s_init day ''11:00'' ''10:00'' 1 ''k1-oven3'' ''not-a-token'')
       = Inl (HTTPException 401 ''Invalid token'')
   \<and> snd (create_reservation s_init day ''11:00'' ''10:00'' 1 ''k1-oven3'' ''not-a-token'') = s_init
   \<and> create_reservation s_init day ''11:00'' ''10:00'' 1 ''k1-oven3'' token_a =
       (Inr (reservation_id isic_a day ''11:00'' ''10:00''),
        s_init\<lparr>reservations := [new_row isic_a day ''11:00'' ''10:00'' 1 ''k1-oven3'' ''oven'']\<rparr>)"
proof -
  have le: "''10:00'' \<le> ''11:00''" by simp
  have bad: "tokens s_init ''not-a-token'' = None"
    by (simp add: s_init_def token_a_def token_b_def)
  have err: "fst (create_reservation s_init day ''11:00'' ''10:00'' 1 ''k1-oven3'' ''not-a-token'')
       = Inl (HTTPException 401 ''Invalid token'')"
    by (simp add: create_reservation_def verify_token_def py_not_def bad)
  have hyps: "tokens s_init token_a = Some isic_a \<and> isic_a \<noteq> []
      \<and> select_appliance_type s_init ''k1-oven3'' = Some ''oven''
      \<and> conflicts s_init day 1 ''k1-oven3'' ''11:00'' ''10:00'' = 0
      \<and> (\<forall>r \<in> set (reservations s_init). res_id r \<noteq> reservation_id isic_a day ''11:00'' ''10:00'')"
    by (simp add: s_init_tokens isic_nonempty select_oven_k1 s_init_fields conflicts_def)
  from start_end_not_validated [OF le, of s_init day 1 "''k1-oven3''" "''not-a-token''"] err
  have unchanged: "snd (create_reservation s_init day ''11:00'' ''10:00'' 1 ''k1-oven3'' ''not-a-token'') = s_init"
    by blast
  from start_end_not_validated [OF le, of s_init day 1 "''k1-oven3''" token_a isic_a "''oven''"] hyps
  have ok: "create_reservation s_init day ''11:00'' ''10:00'' 1 ''k1-oven3'' token_a =
       (Inr (reservation_id isic_a day ''11:00'' ''10:00''),
        s_init\<lparr>reservations := reservations s_init @ [new_row isic_a day ''11:00'' ''10:00'' 1 ''k1-oven3'' ''oven'']\<rparr>)"
    by blast
  show ?thesis using le err unchanged ok by (simp add: s_init_fields)
qed

section \<open>Claim C5: invalid appliances\<close>

text \<open>
  C5 as stated (a request is rejected as an invalid appliance also when the appliance does
  not belong to the requested kitchen) fails: the appliance is looked up by its id alone.
  The oven \<^verbatim>\<open>k1-oven3\<close> belongs to kitchen 1, and a request for it with
  \<^verbatim>\<open>kitchenId = 2\<close> succeeds and is stored.
\<close>

theorem kitchen_membership_counterexample:
  "find (\<lambda>a. app_id a = ''k1-oven3'') (appliances s_init) =
     Some \<lparr>app_id = ''k1-oven3'', app_kitchen_id = 1, app_type = ''oven'', app_name = ''Oven''\<rparr>
   \<and> create_reservation s_init day ''10:00'' ''10:30'' 2 ''k1-oven3'' token_a =
       (Inr (reservation_id isic_a day ''10:00'' ''10:30''),
        s_init\<lparr>reservations := [new_row isic_a day ''10:00'' ''10:30'' 2 ''k1-oven3'' ''oven'']\<rparr>)"
  using create_reservation_ok [of s_init token_a isic_a day 2 "''k1-oven3''" "''10:00''" "''10:30''" "''oven''"]
  by (simp add: s_init_tokens isic_nonempty select_oven_k1 s_init_fields conflicts_def oven_k1)

text \<open>
  C5, amended. In every reachable state and for every request with a valid token:
  if the appliance id is not in the appliances table, the request raises
  \<^verbatim>\<open>400 Invalid appliance\<close> and the state is unchanged; if the appliance id is in the
  table, the request never raises \<^verbatim>\<open>400 Invalid appliance\<close>, whatever the requested
  kitchen id and whatever the kitchen of the appliance; and such a request, for an appliance
  \<open>a\<close> of any kitchen and any requested kitchen id, succeeds and stores the confirmed row
  under the requested kitchen id when the conflict query finds no row and the derived id is
  not stored yet.
\<close>

theorem appliance_checked_by_id_only:
  assumes "reachable s" and "tokens s token = Some isic" and "isic \<noteq> []"
  shows "((\<forall>a \<in> set (appliances s). app_id a \<noteq> applianceId) \<longrightarrow>
            create_reservation s d startTime endTime kitchenId applianceId token =
              (Inl (HTTPException 400 ''Invalid appliance''), s))
       \<and> ((\<exists>a \<in> set (appliances s). app_id a = applianceId) \<longrightarrow>
            fst (create_reservation s d startTime endTime kitchenId applianceId token) \<noteq>
              Inl (HTTPException 400 ''Invalid appliance''))
       \<and> (find (\<lambda>a. app_id a = applianceId) (appliances s) = Some a
            \<and> (\<forall>r \<in> set (reservations s).
                   \<not> conflict_row d kitchenId applianceId startTime endTime r)
            \<and> (\<forall>r \<in> set (reservations s). res_id r \<noteq> reservation_id isic d startTime endTime)
          \<longrightarrow> create_reservation s d startTime endTime kitchenId applianceId token =
                (Inr (reservation_id isic d startTime endTime),
                 s\<lparr>reservations := reservations s @
                      [new_row isic d startTime endTime kitchenId applianceId (app_type a)]\<rparr>))"
proof (intro conjI impI)
  assume absent: "\<forall>a \<in> set (appliances s). app_id a \<noteq> applianceId"
  have nc: "conflicts s d kitchenId applianceId startTime endTime = 0"
    using reachable_rows_have_appliances [OF assms(1)] absent
    by (rule no_conflict_without_appliance)
  have none: "select_appliance_type s applianceId = None"
    using absent by (rule select_appliance_type_None)
  show "create_reservation s d startTime endTime kitchenId applianceId token =
           (Inl (HTTPException 400 ''Invalid appliance''), s)"
    using assms(2,3) nc none
    by (simp add: create_reservation_def verify_token_def py_not_def Let_def)
next
  assume "\<exists>a \<in> set (appliances s). app_id a = applianceId"
  then have "find (\<lambda>a. app_id a = applianceId) (appliances s) \<noteq> None"
    by (auto simp add: find_None_iff)
  then obtain ty where ty: "select_appliance_type s applianceId = Some ty"
    by (auto simp add: select_appliance_type_def)
  show "fst (create_reservation s d startTime endTime kitchenId applianceId token) \<noteq>
          Inl (HTTPException 400 ''Invalid appliance'')"
    using assms(2,3) ty
    by (simp add: create_reservation_def verify_token_def py_not_def Let_def
          insert_reservation_def)
next
  assume h: "find (\<lambda>a. app_id a = applianceId) (appliances s) = Some a
            \<and> (\<forall>r \<in> set (reservations s).
                   \<not> conflict_row d kitchenId applianceId startTime endTime r)
            \<and> (\<forall>r \<in> set (reservations s). res_id r \<noteq> reservation_id isic d startTime endTime)"
  then have ty: "select_appliance_type s applianceId = Some (app_type a)"
    by (simp add: select_appliance_type_def)
  have nc: "conflicts s d kitchenId applianceId startTime endTime = 0"
    using h by (simp add: conflicts_zero_iff)
  from h have fresh: "\<forall>r \<in> set (reservations s). res_id r \<noteq> reservation_id isic d startTime endTime"
    by blast
  show "create_reservation s d startTime endTime kitchenId applianceId token =
                (Inr (reservation_id isic d startTime endTime),
                 s\<lparr>reservations := reservations s @
                      [new_row isic d startTime endTime kitchenId applianceId (app_type a)]\<rparr>)"
    using assms(2,3) nc ty fresh by (rule create_reservation_ok)
qed

theorem appliance_checked_by_id_only_witness:
  "reachable s_booked \<and> tokens s_booked token_b = Some isic_b \<and> isic_b \<noteq> []
   \<and> find (\<lambda>a. app_id a = ''k9-oven3'') (appliances s_booked) = None
   \<and> create_reservation s_booked day ''10:15'' ''10:45'' 9 ''k9-oven3'' token_b =
       (Inl (HTTPException 400 ''Invalid appliance''), s_booked)
   \<and> find (\<lambda>a. app_id a = ''k1-oven3'') (appliances s_booked) =
       Some \<lparr>app_id = ''k1-oven3'', app_kitchen_id = 1, app_type = ''oven'', app_name = ''Oven''\<rparr>
   \<and> fst (create_reservation s_booked day ''10:15'' ''10:45'' 1 ''k1-oven3'' token_b) =
       Inl (HTTPException 400 ''Time slot already reserved'')
   \<and> fst (create_reservation s_booked day ''10:15'' ''10:45'' 1 ''k1-oven3'' token_b) \<noteq>
       Inl (HTTPException 400 ''Invalid appliance'')
   \<and> create_reservation s_booked day ''10:15'' ''10:45'' 2 ''k1-oven3'' token_b =
       (Inr (reservation_id isic_b day ''10:15'' ''10:45''),
        s_booked\<lparr>reservations :=
          [row_a, new_row isic_b day ''10:15'' ''10:45'' 2 ''k1-oven3'' ''oven'']\<rparr>)"
proof -
  note inst = appliance_checked_by_id_only [OF reachable_s_booked s_booked_tokens(2) isic_nonempty(2)]
  have absent: "\<forall>a \<in> set (appliances s_booked). app_id a \<noteq> ''k9-oven3''"
    using no_k9 by (simp add: s_booked_fields)
  then have none: "find (\<lambda>a. app_id a = ''k9-oven3'') (appliances s_booked) = None"
    by (simp add: find_None_iff)
  have rej: "create_reservation s_booked day ''10:15'' ''10:45'' 9 ''k9-oven3'' token_b =
       (Inl (HTTPException 400 ''Invalid appliance''), s_booked)"
    using inst [where applianceId = "''k9-oven3''" and d = day and startTime = "''10:15''"
        and endTime = "''10:45''" and kitchenId = 9] absent by blast
  have oven: "find (\<lambda>a. app_id a = ''k1-oven3'') (appliances s_booked) =
       Some \<lparr>app_id = ''k1-oven3'', app_kitchen_id = 1, app_type = ''oven'', app_name = ''Oven''\<rparr>"
    by (simp add: s_booked_fields oven_k1)
  then have present: "\<exists>a \<in> set (appliances s_booked). app_id a = ''k1-oven3''"
    by (auto simp add: find_Some_iff)
  have taken: "fst (create_reservation s_booked day ''10:15'' ''10:45'' 1 ''k1-oven3'' token_b) =
       Inl (HTTPException 400 ''Time slot already reserved'')"
    by (simp add: create_reservation_def verify_token_def py_not_def Let_def s_init_tokens
          isic_nonempty conflicts_def conflict_row_def sql_conflict_def s_booked_fields
          row_a_fields)
  have not_invalid: "fst (create_reservation s_booked day ''10:15'' ''10:45'' 1 ''k1-oven3'' token_b) \<noteq>
       Inl (HTTPException 400 ''Invalid appliance'')"
    using inst [where applianceId = "''k1-oven3''" and d = day and startTime = "''10:15''"
        and endTime = "''10:45''" and kitchenId = 1] present by blast
  have nc: "\<forall>r \<in> set (reservations s_booked).
              \<not> conflict_row day 2 ''k1-oven3'' ''10:15'' ''10:45'' r"
    by (simp add: s_booked_fields conflict_row_def row_a_fields)
  have fresh: "\<forall>r \<in> set (reservations s_booked).
              res_id r \<noteq> reservation_id isic_b day ''10:15'' ''10:45''"
    using id_a_neq_b [of day "''10:00''" "''10:30''" day "''10:15''" "''10:45''"]
    by (simp add: s_booked_fields row_a_fields)
  have ok: "create_reservation s_booked day ''10:15'' ''10:45'' 2 ''k1-oven3'' token_b =
       (Inr (reservation_id isic_b day ''10:15'' ''10:45''),
        s_booked\<lparr>reservations := reservations s_booked @
          [new_row isic_b day ''10:15'' ''10:45'' 2 ''k1-oven3'' ''oven'']\<rparr>)"
    using inst [where applianceId = "''k1-oven3''" and d = day and startTime = "''10:15''"
        and endTime = "''10:45''" and kitchenId = 2] oven nc fresh by simp
  show ?thesis
    using reachable_s_booked s_booked_tokens(2) isic_nonempty(2) none rej oven taken
      not_invalid ok
    by (simp add: s_booked_fields)
qed

section \<open>Claim C6: the failure modes of cancellation\<close>

text \<open>
  C6 as stated (an unknown reservation id gives a not-found error, a foreign reservation a
  not-owner error) fails: the handler has one guard, \<^verbatim>\<open>if not owner or owner[0] != isic\<close>,
  and raises \<^verbatim>\<open>403 Not your reservation\<close> in both cases. In the state with one booking of
  the first identity, the second identity gets the same error for an id that is not stored
  and for the id of that booking.
\<close>

theorem cancel_errors_counterexample:
  "select_owner s_booked ''no-such-reservation'' = None
   \<and> cancel_reservation s_booked ''no-such-reservation'' token_b =
       (Inl (HTTPException 403 ''Not your reservation''), s_booked)
   \<and> select_owner s_booked (reservation_id isic_a day ''10:00'' ''10:30'') = Some isic_a
   \<and> cancel_reservation s_booked (reservation_id isic_a day ''10:00'' ''10:30'') token_b =
       (Inl (HTTPException 403 ''Not your reservation''), s_booked)"
  using isic_nonempty
  by (simp add: cancel_reservation_def verify_token_def py_not_def Let_def select_owner_booked
        s_booked_tokens)

text \<open>
  C6, amended. With a valid token, cancelling an id that matches no stored reservation and
  cancelling a reservation owned by another identity raise the same error,
  \<^verbatim>\<open>403 Not your reservation\<close>, and in both cases the state is unchanged.
\<close>

theorem cancel_failures_share_one_error:
  assumes "tokens s token = Some isic" and "isic \<noteq> []"
    and "(\<forall>r \<in> set (reservations s). res_id r \<noteq> rid)
         \<or> (\<exists>owner. select_owner s rid = Some owner \<and> owner \<noteq> isic)"
  shows "cancel_reservation s rid token = (Inl (HTTPException 403 ''Not your reservation''), s)"
  using assms
  by (auto simp add: cancel_reservation_def verify_token_def py_not_def Let_def
        select_owner_None_iff [symmetric])

theorem cancel_failures_share_one_error_witness:
  "tokens s_booked token_b = Some isic_b \<and> isic_b \<noteq> []
   \<and> select_owner s_booked ''no-such-reservation'' = None
   \<and> select_owner s_booked (reservation_id isic_a day ''10:00'' ''10:30'') = Some isic_a
   \<and> isic_a \<noteq> isic_b
   \<and> cancel_reservation s_booked ''no-such-reservation'' token_b =
       (Inl (HTTPException 403 ''Not your reservation''), s_booked)
   \<and> cancel_reservation s_booked (reservation_id isic_a day ''10:00'' ''10:30'') token_b =
       (Inl (HTTPException 403 ''Not your reservation''), s_booked)"
proof -
  have h1: "(\<forall>r \<in> set (reservations s_booked). res_id r \<noteq> ''no-such-reservation'')
         \<or> (\<exists>owner. select_owner s_booked ''no-such-reservation'' = Some owner \<and> owner \<noteq> isic_b)"
    using select_owner_booked(1) by (simp add: select_owner_None_iff)
  have h2: "(\<forall>r \<in> set (reservations s_booked). res_id r \<noteq> reservation_id isic_a day ''10:00'' ''10:30'')
         \<or> (\<exists>owner. select_owner s_booked (reservation_id isic_a day ''10:00'' ''10:30'') = Some owner
               \<and> owner \<noteq> isic_b)"
    using select_owner_booked(2) isic_nonempty(3) by simp
  from cancel_failures_share_one_error [OF s_booked_tokens(2) isic_nonempty(2) h1]
       cancel_failures_share_one_error [OF s_booked_tokens(2) isic_nonempty(2) h2]
  show ?thesis
    using s_booked_tokens(2) isic_nonempty select_owner_booked by simp
qed

section \<open>Claim C7: the door-access decision\<close>

text \<open>
  C7 as stated (the decision is true iff a confirmed reservation of the resolved identity
  has today's date and \<open>start \<le> timeOfDay(now) \<le> end\<close>, and one second outside either
  boundary does not authorise) fails at the upper boundary: \<^verbatim>\<open>esp_check\<close> compares the
  stored times with \<^verbatim>\<open>now.strftime("%H:%M")\<close>, which drops the seconds. The first
  identity holds the confirmed reservation from 10:00 to 10:30 on 2025-03-01; at 10:30:01
  of that day, one second after its end, and still at 10:30:59, the probe that resolves to
  that identity is authorised.
\<close>

theorem door_seconds_counterexample:
  "reachable s_door \<and> reservations s_door = [row_a]
   \<and> isic_number row_a = isic_a \<and> status row_a = ''confirmed''
   \<and> res_date row_a = ''2025-03-01'' \<and> start_time row_a = ''10:00''
   \<and> end_time row_a = ''10:30''
   \<and> find_matching_user exact_numpy s_door [1, 0] threshold_0_6 = Some isic_a
   \<and> at_time 10 30 1 = \<lparr>dt_year = 2025, dt_month = 3, dt_day = 1, dt_hour = 10,
                          dt_minute = 30, dt_second = 1\<rparr>
   \<and> esp_check exact_numpy s_door [1, 0] (at_time 10 30 1) = True
   \<and> esp_check exact_numpy s_door [1, 0] (at_time 10 30 59) = True"
proof -
  have e: "esp_check exact_numpy s_door [1, 0] (at_time 10 30 sec)" for sec
    by (simp add: esp_check_iff resolve_s_door isic_nonempty s_door_fields active_row_def
          row_a_fields strftime_at_time day_def)
  show ?thesis
    using e by (simp add: reachable_s_door s_door_fields row_a_fields resolve_s_door day_def
                  at_time_def)
qed

text \<open>
  C7, amended. In every reachable state: if the probe resolves to no identity, the decision
  is false; if it resolves to the identity \<open>I\<close>, the decision is true iff some confirmed
  reservation owned by \<open>I\<close> has its date equal to \<^verbatim>\<open>now.strftime("%Y-%m-%d")\<close> and
  \<open>start \<le> hm \<le> end\<close> for \<open>hm\<close> = \<^verbatim>\<open>now.strftime("%H:%M")\<close>, both endpoints inclusive,
  the texts compared as the database compares them; and the decision does not depend on the
  seconds of \<open>now\<close>.
\<close>

theorem door_access_decision:
  assumes "reachable s"
  shows "(find_matching_user np s embedding threshold_0_6 = None
            \<longrightarrow> esp_check np s embedding now = False)
       \<and> (find_matching_user np s embedding threshold_0_6 = Some I
            \<longrightarrow> (esp_check np s embedding now \<longleftrightarrow>
                  (\<exists>r \<in> set (reservations s).
                     isic_number r = I \<and> status r = ''confirmed''
                     \<and> res_date r = strftime_Ymd now
                     \<and> start_time r \<le> strftime_HM now \<and> strftime_HM now \<le> end_time r)))
       \<and> esp_check np s embedding (now\<lparr>dt_second := sec\<rparr>) = esp_check np s embedding now"
proof (intro conjI impI)
  assume "find_matching_user np s embedding threshold_0_6 = None"
  then show "esp_check np s embedding now = False"
    by (simp add: esp_check_iff)
next
  assume m: "find_matching_user np s embedding threshold_0_6 = Some I"
  have ne: "isic_number r \<noteq> []" if "r \<in> set (reservations s)" for r
    using reachable_isic_nonempty [OF assms] that by blast
  show "esp_check np s embedding now \<longleftrightarrow>
          (\<exists>r \<in> set (reservations s).
             isic_number r = I \<and> status r = ''confirmed''
             \<and> res_date r = strftime_Ymd now
             \<and> start_time r \<le> strftime_HM now \<and> strftime_HM now \<le> end_time r)"
    using m ne unfolding esp_check_iff active_row_def by auto
next
  show "esp_check np s embedding (now\<lparr>dt_second := sec\<rparr>) = esp_check np s embedding now"
    by (simp add: esp_check_def strftime_Ymd_def strftime_HM_def)
qed

theorem door_access_decision_witness:
  "reachable s_door \<and> reservations s_door = [row_a]
   \<and> find_matching_user exact_numpy s_door [0, 0] threshold_0_6 = None
   \<and> esp_check exact_numpy s_door [0, 0] (at_time 10 15 0) = False
   \<and> find_matching_user exact_numpy s_door [1, 0] threshold_0_6 = Some isic_a
   \<and> esp_check exact_numpy s_door [1, 0] (at_time 10 0 0) = True
   \<and> esp_check exact_numpy s_door [1, 0] (at_time 10 30 0) = True
   \<and> esp_check exact_numpy s_door [1, 0] (at_time 10 30 59) = True
   \<and> esp_check exact_numpy s_door [1, 0] (at_time 9 59 59) = False
   \<and> esp_check exact_numpy s_door [1, 0] (at_time 10 31 0) = False"
proof -
  note inst = door_access_decision [OF reachable_s_door, where np = exact_numpy]
  have none: "esp_check exact_numpy s_door [0, 0] (at_time 10 15 0) = False"
    using inst [where embedding = "[0, 0]" and now = "at_time 10 15 0"] resolve_s_door(2)
    by blast
  have row: "(\<exists>r \<in> set (reservations s_door).
                 isic_number r = isic_a \<and> status r = ''confirmed''
                 \<and> res_date r = strftime_Ymd (at_time h m sec)
                 \<and> start_time r \<le> strftime_HM (at_time h m sec)
                 \<and> strftime_HM (at_time h m sec) \<le> end_time r)
             \<longleftrightarrow> ''10:00'' \<le> strftime_HM (at_time h m sec)
                 \<and> strftime_HM (at_time h m sec) \<le> ''10:30''" for h m sec
    by (simp add: s_door_fields row_a_fields strftime_at_time(1) day_def)
  have dec: "esp_check exact_numpy s_door [1, 0] (at_time h m sec) \<longleftrightarrow>
               ''10:00'' \<le> strftime_HM (at_time h m sec)
               \<and> strftime_HM (at_time h m sec) \<le> ''10:30''" for h m sec
    using inst [where embedding = "[1, 0]" and I = isic_a and now = "at_time h m sec"]
      resolve_s_door(1) row [of h m sec]
    by blast
  have sec59: "esp_check exact_numpy s_door [1, 0] (at_time 10 30 59)
               = esp_check exact_numpy s_door [1, 0] (at_time 10 30 0)"
    using inst [where embedding = "[1, 0]" and now = "at_time 10 30 0" and sec = 59]
    by (simp add: at_time_def)
  show ?thesis
    using none dec [of 10 0 0] dec [of 10 30 0] dec [of 9 59 59] dec [of 10 31 0] sec59
    by (simp add: reachable_s_door s_door_fields resolve_s_door strftime_at_time)
qed

section \<open>Claim C8: identity resolution\<close>




section \<open>Claim C9: the availability listing\<close>

text \<open>
  C9 (every appliance of the kitchen has an entry, and each listed interval is a triple of
  start, end and reservation id drawn from the confirmed reservations of that appliance and
  date) does not hold of the code in the third component. The query of
  \<^verbatim>\<open>get_availability\<close> selects \<^verbatim>\<open>appliance_id, start_time, end_time\<close>, and the loop
  stores \<^verbatim>\<open>res[0]\<close>, the appliance id, in the field \<^verbatim>\<open>"id"\<close> of the listed interval.
  In the reachable state where the oven \<^verbatim>\<open>k1-oven3\<close> is booked from 10:00 to 10:30 with
  the reservation id \<^verbatim>\<open>S1234567890_2025-03-01_10:00_10:30\<close>, the response for kitchen 1 has
  an entry for each of the five appliances of the kitchen, four of them with no interval,
  and the interval listed for the oven carries the id \<^verbatim>\<open>k1-oven3\<close>. (The entries and
  their start and end times are as C9 says, for the rows stored under the requested
  kitchen id and in the order of the table: lemma \<open>get_availability_appliances\<close>.)
\<close>

theorem availability_id_is_appliance_id:
  "reachable s_booked \<and> reservations s_booked = [row_a]
   \<and> res_id row_a = ''S1234567890_2025-03-01_10:00_10:30''
   \<and> status row_a = ''confirmed'' \<and> res_date row_a = ''2025-03-01''
   \<and> appliance_id row_a = ''k1-oven3''
   \<and> resp_appliances (get_availability s_booked ''2025-03-01'' 1) =
       [\<lparr>entry_applianceId = ''k1-microwave1'', entry_applianceType = ''microwave'',
         entry_applianceName = ''Microwave 1'', entry_reservations = []\<rparr>,
        \<lparr>entry_applianceId = ''k1-microwave2'', entry_applianceType = ''microwave'',
         entry_applianceName = ''Microwave 2'', entry_reservations = []\<rparr>,
        \<lparr>entry_applianceId = ''k1-oven3'', entry_applianceType = ''oven'',
         entry_applianceName = ''Oven'',
         entry_reservations =
           [\<lparr>slot_id = ''k1-oven3'', slot_startTime = ''10:00'', slot_endTime = ''10:30'',
             slot_userId = 1\<rparr>]\<rparr>,
        \<lparr>entry_applianceId = ''k1-stove_left4'', entry_applianceType = ''stove_left'',
         entry_applianceName = ''Stove Left'', entry_reservations = []\<rparr>,
        \<lparr>entry_applianceId = ''k1-stove_right5'', entry_applianceType = ''stove_right'',
         entry_applianceName = ''Stove Right'', entry_reservations = []\<rparr>]"
proof -
  have rid: "res_id row_a = ''S1234567890_2025-03-01_10:00_10:30''"
    by (simp add: row_a_fields reservation_id_def isic_a_def day_def)
  have resp: "resp_appliances (get_availability s_booked day 1) =
       [\<lparr>entry_applianceId = ''k1-microwave1'', entry_applianceType = ''microwave'',
         entry_applianceName = ''Microwave 1'', entry_reservations = []\<rparr>,
        \<lparr>entry_applianceId = ''k1-microwave2'', entry_applianceType = ''microwave'',
         entry_applianceName = ''Microwave 2'', entry_reservations = []\<rparr>,
        \<lparr>entry_applianceId = ''k1-oven3'', entry_applianceType = ''oven'',
         entry_applianceName = ''Oven'',
         entry_reservations =
           [\<lparr>slot_id = ''k1-oven3'', slot_startTime = ''10:00'', slot_endTime = ''10:30'',
             slot_userId = 1\<rparr>]\<rparr>,
        \<lparr>entry_applianceId = ''k1-stove_left4'', entry_applianceType = ''stove_left'',
         entry_applianceName = ''Stove Left'', entry_reservations = []\<rparr>,
        \<lparr>entry_applianceId = ''k1-stove_right5'', entry_applianceType = ''stove_right'',
         entry_applianceName = ''Stove Right'', entry_reservations = []\<rparr>]"
    by (simp add: get_availability_appliances s_booked_fields kitchen_1_appliances
          row_a_fields slot_of_def)
  show ?thesis
    using rid resp by (simp add: reachable_s_booked s_booked_fields row_a_fields day_def)
qed

section \<open>Claim C10: the advertised limits are not enforced by booking\<close>

text \<open>
  C10 as stated (with a valid token and an existing appliance, a request outside the
  advertised limits succeeds provided it overlaps no existing confirmed reservation and its
  derived id is not stored yet) fails, because the conflict query is not the overlap rule
  \<open>s1 < e2 \<and> s2 < e1\<close>. In the state where the oven of kitchen 1 is booked from 10:00 to
  10:30, the second identity asks for the same oven from 10:30 to 10:30: the duration 0 is
  below the advertised minimum, the request overlaps no stored reservation and its id is
  not stored, yet the second disjunct of the query counts the stored row and the request is
  rejected with \<^verbatim>\<open>400 Time slot already reserved\<close>. Likewise, in the state that holds the
  confirmed row from 11:00 to 10:00, the two-minute request from 10:30 to 10:32 overlaps
  nothing and is rejected through the third disjunct.
\<close>

theorem limits_no_overlap_counterexample:
  "reachable s_booked \<and> reservations s_booked = [row_a]
   \<and> tokens s_booked token_b = Some isic_b
   \<and> select_appliance_type s_booked ''k1-oven3'' = Some ''oven''
   \<and> \<not> overlap (start_time row_a) (end_time row_a) ''10:30'' ''10:30''
   \<and> res_id row_a \<noteq> reservation_id isic_b day ''10:30'' ''10:30''
   \<and> create_reservation s_booked day ''10:30'' ''10:30'' 1 ''k1-oven3'' token_b =
       (Inl (HTTPException 400 ''Time slot already reserved''), s_booked)
   \<and> reachable s_inverted \<and> reservations s_inverted = [row_inverted]
   \<and> tokens s_inverted token_b = Some isic_b
   \<and> select_appliance_type s_inverted ''k1-oven3'' = Some ''oven''
   \<and> \<not> overlap (start_time row_inverted) (end_time row_inverted) ''10:30'' ''10:32''
   \<and> res_id row_inverted \<noteq> reservation_id isic_b day ''10:30'' ''10:32''
   \<and> create_reservation s_inverted day ''10:30'' ''10:32'' 1 ''k1-oven3'' token_b =
       (Inl (HTTPException 400 ''Time slot already reserved''), s_inverted)"
proof -
  have a1: "\<not> overlap (start_time row_a) (end_time row_a) ''10:30'' ''10:30''"
    by (simp add: overlap_def row_a_fields)
  have a2: "res_id row_a \<noteq> reservation_id isic_b day ''10:30'' ''10:30''"
    using id_a_neq_b [of day "''10:00''" "''10:30''" day "''10:30''" "''10:30''"]
    by (simp add: row_a_fields)
  have a3: "create_reservation s_booked day ''10:30'' ''10:30'' 1 ''k1-oven3'' token_b =
       (Inl (HTTPException 400 ''Time slot already reserved''), s_booked)"
    by (simp add: create_reservation_def verify_token_def py_not_def Let_def s_init_tokens
          isic_nonempty conflicts_def conflict_row_def sql_conflict_def s_booked_fields
          row_a_fields)
  have b1: "\<not> overlap (start_time row_inverted) (end_time row_inverted) ''10:30'' ''10:32''"
    by (simp add: overlap_def row_inverted_fields)
  have b2: "res_id row_inverted \<noteq> reservation_id isic_b day ''10:30'' ''10:32''"
    using id_a_neq_b [of day "''11:00''" "''10:00''" day "''10:30''" "''10:32''"]
    by (simp add: row_inverted_fields)
  have b3: "create_reservation s_inverted day ''10:30'' ''10:32'' 1 ''k1-oven3'' token_b =
       (Inl (HTTPException 400 ''Time slot already reserved''), s_inverted)"
    by (simp add: create_reservation_def verify_token_def py_not_def Let_def s_inverted_tokens
          isic_nonempty conflicts_def conflict_row_def sql_conflict_def s_inverted_fields
          row_inverted_fields)
  show ?thesis
    using a1 a2 a3 b1 b2 b3
    by (simp add: reachable_s_booked reachable_s_inverted s_booked_fields s_inverted_fields
          s_init_tokens s_inverted_tokens select_oven_k1)
qed

text \<open>
  C10, amended. The availability response advertises operating hours 06:00 to 23:00, a
  minimum duration of 5 and a maximum duration of 120, and \<^verbatim>\<open>create_reservation\<close> checks
  none of them. With a valid session token, an existing appliance and a derived id that is
  not stored yet, a request succeeds and persists a confirmed reservation for every start
  and end time (outside the hours, shorter than the minimum, longer than the maximum)
  provided no confirmed reservation \<open>r\<close> with the same date, kitchen id and appliance id
  satisfies the condition of the conflict query,
  \<open>(start r \<le> startTime \<and> end r > startTime) \<or> (start r < endTime \<and> end r \<ge> endTime) \<or>
  (start r \<ge> startTime \<and> end r \<le> endTime)\<close>. When the request has its start before its
  end and so has each of those stored reservations, it is enough that the request overlaps
  none of them under the rule \<open>s1 < e2 \<and> s2 < e1\<close>.
\<close>

theorem advertised_limits_not_enforced:
  assumes "tokens s token = Some isic" and "isic \<noteq> []"
    and "select_appliance_type s applianceId = Some ty"
    and "\<forall>r \<in> set (reservations s). res_id r \<noteq> reservation_id isic d startTime endTime"
  shows "operatingHours (get_availability s d kitchenId) = (''06:00'', ''23:00'')
         \<and> minDuration (get_availability s d kitchenId) = 5
         \<and> maxDuration (get_availability s d kitchenId) = 120
         \<and> ((\<forall>r \<in> set (reservations s).
                status r = ''confirmed'' \<and> res_date r = d \<and> kitchen_id r = kitchenId
                \<and> appliance_id r = applianceId
                \<longrightarrow> \<not> ((start_time r \<le> startTime \<and> startTime < end_time r)
                       \<or> (start_time r < endTime \<and> endTime \<le> end_time r)
                       \<or> (startTime \<le> start_time r \<and> end_time r \<le> endTime)))
             \<longrightarrow> create_reservation s d startTime endTime kitchenId applianceId token =
                   (Inr (reservation_id isic d startTime endTime),
                    s\<lparr>reservations := reservations s @
                         [new_row isic d startTime endTime kitchenId applianceId ty]\<rparr>))
         \<and> (startTime < endTime
             \<and> (\<forall>r \<in> set (reservations s).
                  status r = ''confirmed'' \<and> res_date r = d \<and> kitchen_id r = kitchenId
                  \<and> appliance_id r = applianceId
                  \<longrightarrow> start_time r < end_time r
                      \<and> \<not> overlap (start_time r) (end_time r) startTime endTime)
             \<longrightarrow> create_reservation s d startTime endTime kitchenId applianceId token =
                   (Inr (reservation_id isic d startTime endTime),
                    s\<lparr>reservations := reservations s @
                         [new_row isic d startTime endTime kitchenId applianceId ty]\<rparr>))"
proof -
  have adv: "operatingHours (get_availability s d kitchenId) = (''06:00'', ''23:00'')
         \<and> minDuration (get_availability s d kitchenId) = 5
         \<and> maxDuration (get_availability s d kitchenId) = 120"
    by (simp add: get_availability_def Let_def)
  have ok: "create_reservation s d startTime endTime kitchenId applianceId token =
                   (Inr (reservation_id isic d startTime endTime),
                    s\<lparr>reservations := reservations s @
                         [new_row isic d startTime endTime kitchenId applianceId ty]\<rparr>)"
    if "\<forall>r \<in> set (reservations s). \<not> conflict_row d kitchenId applianceId startTime endTime r"
  proof -
    from that have "conflicts s d kitchenId applianceId startTime endTime = 0"
      by (simp add: conflicts_zero_iff)
    with assms show ?thesis by (simp add: create_reservation_ok)
  qed
  have first: "create_reservation s d startTime endTime kitchenId applianceId token =
                   (Inr (reservation_id isic d startTime endTime),
                    s\<lparr>reservations := reservations s @
                         [new_row isic d startTime endTime kitchenId applianceId ty]\<rparr>)"
    if h: "\<forall>r \<in> set (reservations s).
                status r = ''confirmed'' \<and> res_date r = d \<and> kitchen_id r = kitchenId
                \<and> appliance_id r = applianceId
                \<longrightarrow> \<not> ((start_time r \<le> startTime \<and> startTime < end_time r)
                       \<or> (start_time r < endTime \<and> endTime \<le> end_time r)
                       \<or> (startTime \<le> start_time r \<and> end_time r \<le> endTime))"
  proof (rule ok, rule ballI)
    fix r assume "r \<in> set (reservations s)"
    with h show "\<not> conflict_row d kitchenId applianceId startTime endTime r"
      unfolding conflict_row_def sql_conflict_def by blast
  qed
  have second: "create_reservation s d startTime endTime kitchenId applianceId token =
                   (Inr (reservation_id isic d startTime endTime),
                    s\<lparr>reservations := reservations s @
                         [new_row isic d startTime endTime kitchenId applianceId ty]\<rparr>)"
    if lt: "startTime < endTime"
      and h: "\<forall>r \<in> set (reservations s).
                  status r = ''confirmed'' \<and> res_date r = d \<and> kitchen_id r = kitchenId
                  \<and> appliance_id r = applianceId
                  \<longrightarrow> start_time r < end_time r
                      \<and> \<not> overlap (start_time r) (end_time r) startTime endTime"
  proof (rule ok, rule ballI)
    fix r assume r: "r \<in> set (reservations s)"
    show "\<not> conflict_row d kitchenId applianceId startTime endTime r"
    proof
      assume c: "conflict_row d kitchenId applianceId startTime endTime r"
      then have key: "status r = ''confirmed'' \<and> res_date r = d \<and> kitchen_id r = kitchenId
                  \<and> appliance_id r = applianceId" and sq: "sql_conflict r startTime endTime"
        by (simp_all add: conflict_row_def)
      from h r key have "start_time r < end_time r"
        and no: "\<not> overlap (start_time r) (end_time r) startTime endTime" by blast+
      from sql_conflict_imp_overlap [OF this(1) lt sq] no show False by blast
    qed
  qed
  from adv first second show ?thesis by blast
qed

theorem advertised_limits_not_enforced_witness:
  "tokens s_booked token_b = Some isic_b \<and> isic_b \<noteq> []
   \<and> select_appliance_type s_booked ''k1-oven3'' = Some ''oven''
   \<and> reservations s_booked = [row_a]
   \<and> status row_a = ''confirmed'' \<and> res_date row_a = day \<and> kitchen_id row_a = 1
   \<and> appliance_id row_a = ''k1-oven3''
   \<and> start_time row_a = ''10:00'' \<and> end_time row_a = ''10:30''
   \<and> ''05:30'' \<le> fst (operatingHours (get_availability s_booked day 1))
   \<and> create_reservation s_booked day ''02:00'' ''05:30'' 1 ''k1-oven3'' token_b =
       (Inr (reservation_id isic_b day ''02:00'' ''05:30''),
        s_booked\<lparr>reservations :=
          [row_a, new_row isic_b day ''02:00'' ''05:30'' 1 ''k1-oven3'' ''oven'']\<rparr>)
   \<and> create_reservation s_booked day ''10:30'' ''10:32'' 1 ''k1-oven3'' token_b =
       (Inr (reservation_id isic_b day ''10:30'' ''10:32''),
        s_booked\<lparr>reservations :=
          [row_a, new_row isic_b day ''10:30'' ''10:32'' 1 ''k1-oven3'' ''oven'']\<rparr>)"
proof -
  have ty: "select_appliance_type s_booked ''k1-oven3'' = Some ''oven''"
    by (simp add: select_oven_k1 s_booked_fields)
  have fresh: "\<forall>r \<in> set (reservations s_booked). res_id r \<noteq> reservation_id isic_b day st en"
    for st en
    using id_a_neq_b [of day "''10:00''" "''10:30''" day st en]
    by (simp add: s_booked_fields row_a_fields)
  note inst = advertised_limits_not_enforced [where s = s_booked and token = token_b
      and isic = isic_b and applianceId = "''k1-oven3''" and ty = "''oven''" and d = day
      and kitchenId = 1, OF s_booked_tokens(2) isic_nonempty(2) ty fresh]
  have rule1: "\<forall>r \<in> set (reservations s_booked).
                status r = ''confirmed'' \<and> res_date r = day \<and> kitchen_id r = 1
                \<and> appliance_id r = ''k1-oven3''
                \<longrightarrow> \<not> ((start_time r \<le> ''02:00'' \<and> ''02:00'' < end_time r)
                       \<or> (start_time r < ''05:30'' \<and> ''05:30'' \<le> end_time r)
                       \<or> (''02:00'' \<le> start_time r \<and> end_time r \<le> ''05:30''))"
    by (simp add: s_booked_fields row_a_fields)
  have night: "create_reservation s_booked day ''02:00'' ''05:30'' 1 ''k1-oven3'' token_b =
       (Inr (reservation_id isic_b day ''02:00'' ''05:30''),
        s_booked\<lparr>reservations := reservations s_booked @
          [new_row isic_b day ''02:00'' ''05:30'' 1 ''k1-oven3'' ''oven'']\<rparr>)"
    using inst [of "''02:00''" "''05:30''"] rule1 by blast
  have hours: "''05:30'' \<le> fst (operatingHours (get_availability s_booked day 1))"
    using inst [of "''02:00''" "''05:30''"] by simp
  have rule2: "''10:30'' < ''10:32''
             \<and> (\<forall>r \<in> set (reservations s_booked).
                  status r = ''confirmed'' \<and> res_date r = day \<and> kitchen_id r = 1
                  \<and> appliance_id r = ''k1-oven3''
                  \<longrightarrow> start_time r < end_time r
                      \<and> \<not> overlap (start_time r) (end_time r) ''10:30'' ''10:32'')"
    by (simp add: s_booked_fields row_a_fields overlap_def)
  have short: "create_reservation s_booked day ''10:30'' ''10:32'' 1 ''k1-oven3'' token_b =
       (Inr (reservation_id isic_b day ''10:30'' ''10:32''),
        s_booked\<lparr>reservations := reservations s_booked @
          [new_row isic_b day ''10:30'' ''10:32'' 1 ''k1-oven3'' ''oven'']\<rparr>)"
    using inst [of "''10:30''" "''10:32''"] rule2 by blast
  show ?thesis
    using ty night hours short
    by (simp add: s_init_tokens isic_nonempty s_booked_fields row_a_fields)
qed

end
